theory Spec2Isabelle
  imports Complex_Main
begin

section \<open>Numbers and vectors\<close>

text \<open>
  JavaScript numbers and GLSL floats are idealised as real numbers: rounding is not
  modelled, and the values NaN and Infinity have no counterpart. Where the source can
  produce one of them from the inputs considered here (a division by zero), the model
  makes that case explicit instead of computing with HOL's \<open>x / 0 = 0\<close>. Two parts of
  the program are modelled a second time without this idealisation, because a branch
  depends on it: the radial flow of \<open>generate\<close>, over the rounded operations of the
  engine, and the normalisation of a loaded geometry, over the numbers of the type
  \<open>jsnum\<close> below.
\<close>

datatype vec3 = Vec3 (xc: real) (yc: real) (zc: real)

text \<open>A JavaScript number that may also be NaN or infinite.\<close>

datatype jsnum = Num real | NaN | PosInfinity | NegInfinity

fun truthy :: "jsnum \<Rightarrow> bool" where
  "truthy (Num r) = (r \<noteq> 0)"
| "truthy NaN = False"
| "truthy PosInfinity = True"
| "truthy NegInfinity = True"

text \<open>\<open>THREE.Vector3\<close>: \<open>length\<close>, \<open>multiplyScalar\<close>, \<open>divideScalar\<close>, \<open>normalize\<close>,
  \<open>add\<close>, \<open>sub\<close>.\<close>

definition vlength :: "vec3 \<Rightarrow> real" where
  "vlength v = sqrt (xc v * xc v + yc v * yc v + zc v * zc v)"

definition multiplyScalar :: "vec3 \<Rightarrow> real \<Rightarrow> vec3" where
  "multiplyScalar v s = Vec3 (xc v * s) (yc v * s) (zc v * s)"

definition divideScalar :: "vec3 \<Rightarrow> real \<Rightarrow> vec3" where
  "divideScalar v s = multiplyScalar v (1 / s)"

definition normalize :: "vec3 \<Rightarrow> vec3" where
  "normalize v = divideScalar v (if vlength v = 0 then 1 else vlength v)"

definition vadd :: "vec3 \<Rightarrow> vec3 \<Rightarrow> vec3" where
  "vadd a b = Vec3 (xc a + xc b) (yc a + yc b) (zc a + zc b)"

definition vsub :: "vec3 \<Rightarrow> vec3 \<Rightarrow> vec3" where
  "vsub a b = Vec3 (xc a - xc b) (yc a - yc b) (zc a - zc b)"

section \<open>Bounding boxes and geometries\<close>

text \<open>
  \<open>THREE.Box3\<close>. The empty box (three.js keeps it as min = +Infinity, max = -Infinity)
  is a constructor of its own. A geometry is the list of its vertex positions.
\<close>

datatype box3 = EmptyBox | Box3 (bmin: vec3) (bmax: vec3)

fun expandByPoint :: "box3 \<Rightarrow> vec3 \<Rightarrow> box3" where
  "expandByPoint EmptyBox p = Box3 p p"
| "expandByPoint (Box3 lo hi) p =
     Box3 (Vec3 (min (xc lo) (xc p)) (min (yc lo) (yc p)) (min (zc lo) (zc p)))
          (Vec3 (max (xc hi) (xc p)) (max (yc hi) (yc p)) (max (zc hi) (zc p)))"

definition computeBoundingBox :: "vec3 list \<Rightarrow> box3" where
  "computeBoundingBox vs = foldl expandByPoint EmptyBox vs"

fun containsPoint :: "box3 \<Rightarrow> vec3 \<Rightarrow> bool" where
  "containsPoint EmptyBox p = False"
| "containsPoint (Box3 lo hi) p =
     (xc lo \<le> xc p \<and> xc p \<le> xc hi \<and>
      yc lo \<le> yc p \<and> yc p \<le> yc hi \<and>
      zc lo \<le> zc p \<and> zc p \<le> zc hi)"

fun getCenter :: "box3 \<Rightarrow> vec3" where
  "getCenter EmptyBox = Vec3 0 0 0"
| "getCenter (Box3 lo hi) = multiplyScalar (vadd lo hi) 0.5"

fun getSize :: "box3 \<Rightarrow> vec3" where
  "getSize EmptyBox = Vec3 0 0 0"
| "getSize (Box3 lo hi) = vsub hi lo"


section \<open>VelocityField.generate\<close>

text \<open>
  A mesh, as far as \<open>generate\<close> looks at it: its geometry, if any, and the number of
  intersections \<open>raycaster.intersectObject(mesh, true)\<close> reports for a ray given by
  origin and direction (\<open>Raycaster\<close> belongs to three.js, so the count is a parameter).
\<close>

record mesh =
  geometry :: "vec3 list option"
  intersections :: "vec3 \<Rightarrow> vec3 \<Rightarrow> nat"

definition rayDir :: vec3 where
  "rayDir = Vec3 0 1 0"

text \<open>The mesh bounding box, computed once before the loop; \<open>None\<close> is \<open>null\<close>.\<close>

definition meshBbox :: "mesh option \<Rightarrow> box3 option" where
  "meshBbox m = (case m of None \<Rightarrow> None
     | Some me \<Rightarrow> (case geometry me of None \<Rightarrow> None
         | Some g \<Rightarrow> Some (computeBoundingBox g)))"

text \<open>The obstacle test of one grid point: the value of the local \<open>inside\<close>.\<close>

definition inside :: "mesh option \<Rightarrow> vec3 \<Rightarrow> bool" where
  "inside m pos = (case m of None \<Rightarrow> False
     | Some me \<Rightarrow> (case meshBbox m of None \<Rightarrow> False
         | Some bb \<Rightarrow>
             if containsPoint bb pos
             then (if intersections me pos rayDir mod 2 = 1 then True else False)
             else False))"

text \<open>The analytic flow of one grid point, before the obstacle test.\<close>

definition flow_velocity :: "string \<Rightarrow> vec3 \<Rightarrow> vec3" where
  "flow_velocity method pos =
     (if method = ''potential'' then Vec3 (0 + 1) 0 0
      else if method = ''radial'' then
        (let dist = vlength pos in
         if dist > 0.1 then normalize pos else Vec3 0 0 0)
      else Vec3 0 0 0)"

definition cell_velocity :: "string \<Rightarrow> mesh option \<Rightarrow> vec3 \<Rightarrow> vec3" where
  "cell_velocity method m pos =
     (if inside m pos then Vec3 0 0 0 else flow_velocity method pos)"

text \<open>
  The grid step \<open>boxSize / (resolution - 1)\<close>. At resolution 1 the source divides by
  zero: the step is Infinity and the only cell's position is NaN, which the real-number
  model does not represent, so the step is \<open>None\<close> there.
\<close>

definition grid_step :: "nat \<Rightarrow> real option" where
  "grid_step res = (if res = 1 then None else Some (2 / (real res - 1)))"

definition cell_pos :: "real \<Rightarrow> nat \<Rightarrow> nat \<Rightarrow> nat \<Rightarrow> vec3" where
  "cell_pos h x y z = Vec3 (- 1 + real x * h) (- 1 + real y * h) (- 1 + real z * h)"

text \<open>The four writes at the end of the loop body. A typed-array write past the end
  is ignored, as \<open>list_update\<close> is.\<close>

definition write_cell :: "real list \<Rightarrow> nat \<Rightarrow> vec3 \<Rightarrow> real list" where
  "write_cell data stride v =
     data[stride := xc v, stride + 1 := yc v, stride + 2 := zc v, stride + 3 := 0]"

definition cell_body ::
  "nat \<Rightarrow> real \<Rightarrow> string \<Rightarrow> mesh option \<Rightarrow> nat \<Rightarrow> nat \<Rightarrow> real list \<Rightarrow> nat \<Rightarrow> real list" where
  "cell_body res h method m z y data x =
     (let i = (z * res * res) + (y * res) + x;
          stride = i * 4;
          pos = cell_pos h x y z
      in write_cell data stride (cell_velocity method m pos))"

definition x_loop ::
  "nat \<Rightarrow> real \<Rightarrow> string \<Rightarrow> mesh option \<Rightarrow> nat \<Rightarrow> real list \<Rightarrow> nat \<Rightarrow> real list" where
  "x_loop res h method m z data y = foldl (cell_body res h method m z y) data [0..<res]"

definition y_loop ::
  "nat \<Rightarrow> real \<Rightarrow> string \<Rightarrow> mesh option \<Rightarrow> real list \<Rightarrow> nat \<Rightarrow> real list" where
  "y_loop res h method m data z = foldl (x_loop res h method m z) data [0..<res]"

definition z_loop :: "nat \<Rightarrow> real \<Rightarrow> string \<Rightarrow> mesh option \<Rightarrow> real list \<Rightarrow> real list" where
  "z_loop res h method m data = foldl (y_loop res h method m) data [0..<res]"

text \<open>
  \<open>generate\<close>, as far as the data array goes: a fresh \<open>Float32Array\<close> of
  \<open>resolution^3 * 4\<close> zeros, filled by the triple loop.
\<close>

definition generate_data :: "nat \<Rightarrow> string \<Rightarrow> mesh option \<Rightarrow> real list option" where
  "generate_data res method m =
     (case grid_step res of None \<Rightarrow> None
      | Some h \<Rightarrow> Some (z_loop res h method m (replicate (res * res * res * 4) 0)))"

text \<open>Reading the array back: the four floats of cell \<open>(x, y, z)\<close>.\<close>

definition cell_index :: "nat \<Rightarrow> nat \<Rightarrow> nat \<Rightarrow> nat \<Rightarrow> nat" where
  "cell_index res x y z = (z * res * res) + (y * res) + x"

definition stored_velocity :: "real list \<Rightarrow> nat \<Rightarrow> vec3" where
  "stored_velocity data i = Vec3 (data ! (i * 4)) (data ! (i * 4 + 1)) (data ! (i * 4 + 2))"

definition stored_alpha :: "real list \<Rightarrow> nat \<Rightarrow> real" where
  "stored_alpha data i = data ! (i * 4 + 3)"

text \<open>
  The same computation with the number operations of the JavaScript engine as
  parameters. Every addition, multiplication, division and square root of \<open>generate\<close>
  and of the \<open>Vector3\<close> methods it calls goes through the corresponding operation, in the
  order in which the source evaluates it; \<open>fp_tenth\<close> is the value of the literal \<open>0.1\<close>
  and \<open>fp_fround\<close> the conversion of a number stored into a \<open>Float32Array\<close>. With IEEE
  doubles these are the correctly rounded operations; comparisons and the integer
  arithmetic of the indices are exact.
\<close>

record arithmetic =
  fp_add :: "real \<Rightarrow> real \<Rightarrow> real"
  fp_mul :: "real \<Rightarrow> real \<Rightarrow> real"
  fp_div :: "real \<Rightarrow> real \<Rightarrow> real"
  fp_sqrt :: "real \<Rightarrow> real"
  fp_tenth :: real
  fp_fround :: "real \<Rightarrow> real"

definition exact_arithmetic :: arithmetic where
  "exact_arithmetic = \<lparr>fp_add = (\<lambda>a b. a + b), fp_mul = (\<lambda>a b. a * b),
     fp_div = (\<lambda>a b. a / b), fp_sqrt = sqrt, fp_tenth = 0.1, fp_fround = (\<lambda>a. a)\<rparr>"

text \<open>
  The arithmetic of the engine: IEEE 754 binary64 for the numbers of the program and
  binary32 for the elements of a \<open>Float32Array\<close>. \<open>fl p emin x\<close> is the number with a
  significand of \<open>p\<close> bits nearest to \<open>x\<close>, ties to the even significand, with the
  exponent of the last significand bit not below \<open>emin\<close> (gradual underflow);
  \<open>ilog2 n a\<close> is the exponent of \<open>a\<close>, found in at most \<open>n\<close> doublings or halvings.
  Overflow to infinity is not represented: no number computed by \<open>generate\<close> comes near
  the largest double.
\<close>

definition round_even :: "real \<Rightarrow> int" where
  "round_even x =
     (let f = \<lfloor>x\<rfloor> in
      if x - real_of_int f < 1 / 2 then f
      else if x - real_of_int f > 1 / 2 then f + 1
      else if even f then f else f + 1)"

fun ilog2 :: "nat \<Rightarrow> real \<Rightarrow> int" where
  "ilog2 0 a = 0"
| "ilog2 (Suc n) a =
     (if a \<ge> 2 then ilog2 n (a / 2) + 1 else if a < 1 then ilog2 n (a * 2) - 1 else 0)"

definition fl :: "nat \<Rightarrow> int \<Rightarrow> real \<Rightarrow> real" where
  "fl p emin x =
     (if x = 0 then 0
      else let e = max (ilog2 2200 \<bar>x\<bar> - (int p - 1)) emin
           in real_of_int (round_even (x / 2 powi e)) * 2 powi e)"

definition ieee_arithmetic :: arithmetic where
  "ieee_arithmetic =
     \<lparr>fp_add = (\<lambda>a b. fl 53 (- 1074) (a + b)), fp_mul = (\<lambda>a b. fl 53 (- 1074) (a * b)),
      fp_div = (\<lambda>a b. fl 53 (- 1074) (a / b)), fp_sqrt = (\<lambda>a. fl 53 (- 1074) (sqrt a)),
      fp_tenth = fl 53 (- 1074) (1 / 10), fp_fround = fl 24 (- 149)\<rparr>"

definition vlength_fp :: "arithmetic \<Rightarrow> vec3 \<Rightarrow> real" where
  "vlength_fp F v =
     fp_sqrt F (fp_add F (fp_add F (fp_mul F (xc v) (xc v)) (fp_mul F (yc v) (yc v)))
                         (fp_mul F (zc v) (zc v)))"

definition multiplyScalar_fp :: "arithmetic \<Rightarrow> vec3 \<Rightarrow> real \<Rightarrow> vec3" where
  "multiplyScalar_fp F v s = Vec3 (fp_mul F (xc v) s) (fp_mul F (yc v) s) (fp_mul F (zc v) s)"

definition divideScalar_fp :: "arithmetic \<Rightarrow> vec3 \<Rightarrow> real \<Rightarrow> vec3" where
  "divideScalar_fp F v s = multiplyScalar_fp F v (fp_div F 1 s)"

definition normalize_fp :: "arithmetic \<Rightarrow> vec3 \<Rightarrow> vec3" where
  "normalize_fp F v = divideScalar_fp F v (if vlength_fp F v = 0 then 1 else vlength_fp F v)"

definition flow_velocity_fp :: "arithmetic \<Rightarrow> string \<Rightarrow> vec3 \<Rightarrow> vec3" where
  "flow_velocity_fp F method pos =
     (if method = ''potential'' then Vec3 (fp_add F 0 1) 0 0
      else if method = ''radial'' then
        (let dist = vlength_fp F pos in
         if dist > fp_tenth F then normalize_fp F pos else Vec3 0 0 0)
      else Vec3 0 0 0)"

definition cell_velocity_fp :: "arithmetic \<Rightarrow> string \<Rightarrow> mesh option \<Rightarrow> vec3 \<Rightarrow> vec3" where
  "cell_velocity_fp F method m pos =
     (if inside m pos then Vec3 0 0 0 else flow_velocity_fp F method pos)"

text \<open>The step is \<open>boxSize.divideScalar(resolution - 1)\<close>, that is \<open>2 * (1 / (resolution - 1))\<close>.\<close>

definition grid_step_fp :: "arithmetic \<Rightarrow> nat \<Rightarrow> real option" where
  "grid_step_fp F res =
     (if res = 1 then None else Some (fp_mul F 2 (fp_div F 1 (real res - 1))))"

definition cell_pos_fp :: "arithmetic \<Rightarrow> real \<Rightarrow> nat \<Rightarrow> nat \<Rightarrow> nat \<Rightarrow> vec3" where
  "cell_pos_fp F h x y z =
     Vec3 (fp_add F (- 1) (fp_mul F (real x) h)) (fp_add F (- 1) (fp_mul F (real y) h))
          (fp_add F (- 1) (fp_mul F (real z) h))"

definition write_cell_fp :: "arithmetic \<Rightarrow> real list \<Rightarrow> nat \<Rightarrow> vec3 \<Rightarrow> real list" where
  "write_cell_fp F data stride v =
     data[stride := fp_fround F (xc v), stride + 1 := fp_fround F (yc v),
          stride + 2 := fp_fround F (zc v), stride + 3 := fp_fround F 0]"

definition cell_body_fp ::
  "arithmetic \<Rightarrow> nat \<Rightarrow> real \<Rightarrow> string \<Rightarrow> mesh option \<Rightarrow> nat \<Rightarrow> nat \<Rightarrow> real list \<Rightarrow> nat \<Rightarrow>
   real list" where
  "cell_body_fp F res h method m z y data x =
     (let i = (z * res * res) + (y * res) + x;
          stride = i * 4;
          pos = cell_pos_fp F h x y z
      in write_cell_fp F data stride (cell_velocity_fp F method m pos))"

definition x_loop_fp ::
  "arithmetic \<Rightarrow> nat \<Rightarrow> real \<Rightarrow> string \<Rightarrow> mesh option \<Rightarrow> nat \<Rightarrow> real list \<Rightarrow> nat \<Rightarrow> real list" where
  "x_loop_fp F res h method m z data y =
     foldl (cell_body_fp F res h method m z y) data [0..<res]"

definition y_loop_fp ::
  "arithmetic \<Rightarrow> nat \<Rightarrow> real \<Rightarrow> string \<Rightarrow> mesh option \<Rightarrow> real list \<Rightarrow> nat \<Rightarrow> real list" where
  "y_loop_fp F res h method m data z = foldl (x_loop_fp F res h method m z) data [0..<res]"

definition z_loop_fp ::
  "arithmetic \<Rightarrow> nat \<Rightarrow> real \<Rightarrow> string \<Rightarrow> mesh option \<Rightarrow> real list \<Rightarrow> real list" where
  "z_loop_fp F res h method m data = foldl (y_loop_fp F res h method m) data [0..<res]"

definition generate_data_fp :: "arithmetic \<Rightarrow> nat \<Rightarrow> string \<Rightarrow> mesh option \<Rightarrow> real list option" where
  "generate_data_fp F res method m =
     (case grid_step_fp F res of None \<Rightarrow> None
      | Some h \<Rightarrow> Some (z_loop_fp F res h method m (replicate (res * res * res * 4) 0)))"

text \<open>
  Auxiliary notions for the proofs: the \<open>k\<close>-th float of a cell; the triple loop for any
  function \<open>f\<close> giving the vector written for a cell; the vector of the cell with linear
  index \<open>i\<close>; and a vector with each component converted by \<open>fp_fround\<close>.
\<close>

definition comp4 :: "vec3 \<Rightarrow> nat \<Rightarrow> real" where
  "comp4 v k = (if k = 0 then xc v else if k = 1 then yc v else if k = 2 then zc v else 0)"

definition fill_x ::
  "nat \<Rightarrow> (nat \<Rightarrow> nat \<Rightarrow> nat \<Rightarrow> vec3) \<Rightarrow> nat \<Rightarrow> real list \<Rightarrow> nat \<Rightarrow> real list" where
  "fill_x res f z data y =
     foldl (\<lambda>d x. write_cell d ((z * res * res + y * res + x) * 4) (f x y z)) data [0..<res]"

definition fill_y ::
  "nat \<Rightarrow> (nat \<Rightarrow> nat \<Rightarrow> nat \<Rightarrow> vec3) \<Rightarrow> real list \<Rightarrow> nat \<Rightarrow> real list" where
  "fill_y res f data z = foldl (fill_x res f z) data [0..<res]"

definition fill_z :: "nat \<Rightarrow> (nat \<Rightarrow> nat \<Rightarrow> nat \<Rightarrow> vec3) \<Rightarrow> real list \<Rightarrow> real list" where
  "fill_z res f data = foldl (fill_y res f) data [0..<res]"

definition fill_value :: "nat \<Rightarrow> (nat \<Rightarrow> nat \<Rightarrow> nat \<Rightarrow> vec3) \<Rightarrow> nat \<Rightarrow> vec3" where
  "fill_value res f i = f (i mod res) ((i div res) mod res) (i div (res * res))"

definition fround3 :: "arithmetic \<Rightarrow> vec3 \<Rightarrow> vec3" where
  "fround3 F v = Vec3 (fp_fround F (xc v)) (fp_fround F (yc v)) (fp_fround F (zc v))"


section \<open>The particle compute shaders\<close>


type_synonym vec4 = "vec3 \<times> real"




text \<open>GLSL \<open>mix(a, b, t) = a * (1 - t) + b * t\<close>, on vectors.\<close>

definition mix :: "vec3 \<Rightarrow> vec3 \<Rightarrow> real \<Rightarrow> vec3" where
  "mix a b t = vadd (multiplyScalar a (1 - t)) (multiplyScalar b t)"

text \<open>GLSL \<open>normalize(v) = v / length(v)\<close>; the zero vector has no normalisation in the
  real numbers (the GLSL result is undefined).\<close>

definition glsl_normalize :: "vec3 \<Rightarrow> vec3 option" where
  "glsl_normalize v =
     (if vlength v = 0 then None
      else Some (Vec3 (xc v / vlength v) (yc v / vlength v) (zc v / vlength v)))"

text \<open>Component-wise \<open>a / b\<close> of two vectors; \<open>None\<close> when a component of \<open>b\<close> is 0.\<close>

definition vec3_divide :: "vec3 \<Rightarrow> vec3 \<Rightarrow> vec3 option" where
  "vec3_divide a b =
     (if xc b = 0 \<or> yc b = 0 \<or> zc b = 0 then None
      else Some (Vec3 (xc a / xc b) (yc a / yc b) (zc a / zc b)))"

record frame_uniforms =
  time :: real
  delta :: real




record velocity_uniforms = frame_uniforms +
  velocityField :: "vec3 \<Rightarrow> vec4"
  gridMin :: vec3
  gridMax :: vec3
  initialDirection :: vec3
  initialSpeed :: real



text \<open>
  The velocity pass. \<open>None\<close> stands for a division by zero (a zero initial direction
  that is normalised, a grid without extent along an axis), where the GLSL result is
  undefined. The two versions differ in the test for a newly spawned particle and in
  the blend factor.
\<close>

definition sample_field ::
  "('a velocity_uniforms_scheme) \<Rightarrow> vec3 \<Rightarrow> vec3 \<Rightarrow> real \<Rightarrow> vec4 option" where
  "sample_field U pos vel c =
     (case vec3_divide (vsub pos (gridMin U)) (vsub (gridMax U) (gridMin U)) of
        None \<Rightarrow> None
      | Some texCoord \<Rightarrow>
          if xc texCoord \<ge> 0 \<and> xc texCoord \<le> 1 \<and>
             yc texCoord \<ge> 0 \<and> yc texCoord \<le> 1 \<and>
             zc texCoord \<ge> 0 \<and> zc texCoord \<le> 1
          then (let fieldVel = velocityField U texCoord
                in Some (mix vel (fst fieldVel) c, 0))
          else Some (vel, 0))"

definition particleComputeShaderVelocity ::
  "('a velocity_uniforms_scheme) \<Rightarrow> vec4 \<Rightarrow> vec4 \<Rightarrow> vec4 option" where
  "particleComputeShaderVelocity U posData velData =
     (let pos = fst posData;
          age = snd posData;
          vel = fst velData
      in if age \<le> delta U * 60 * 2
         then (case glsl_normalize (initialDirection U) of
                 None \<Rightarrow> None
               | Some d \<Rightarrow> sample_field U pos (multiplyScalar d (initialSpeed U)) 0.3)
         else sample_field U pos vel 0.3)"

definition particleComputeShaderVelocity2 ::
  "('a velocity_uniforms_scheme) \<Rightarrow> vec4 \<Rightarrow> vec4 \<Rightarrow> vec4 option" where
  "particleComputeShaderVelocity2 U posData velData =
     (let pos = fst posData;
          age = snd posData;
          vel = fst velData
      in if age \<le> 0 \<or> age < delta U * 60 * 1.5
         then (case glsl_normalize (initialDirection U) of
                 None \<Rightarrow> None
               | Some d \<Rightarrow> sample_field U pos (multiplyScalar d (initialSpeed U)) 0.2)
         else sample_field U pos vel 0.2)"



text \<open>
  Notions used to state the velocity pass: the position mapped into grid coordinates,
  \<open>(pos - gridMin) / (gridMax - gridMin)\<close>; the unit cube \<open>[0, 1]^3\<close>; and the velocity a
  newly spawned particle starts with, \<open>normalize(initialDirection) * initialSpeed\<close>.
\<close>

definition grid_coords :: "('a velocity_uniforms_scheme) \<Rightarrow> vec3 \<Rightarrow> vec3" where
  "grid_coords U pos =
     Vec3 ((xc pos - xc (gridMin U)) / (xc (gridMax U) - xc (gridMin U)))
          ((yc pos - yc (gridMin U)) / (yc (gridMax U) - yc (gridMin U)))
          ((zc pos - zc (gridMin U)) / (zc (gridMax U) - zc (gridMin U)))"

definition in_unit_cube :: "vec3 \<Rightarrow> bool" where
  "in_unit_cube t = containsPoint (Box3 (Vec3 0 0 0) (Vec3 1 1 1)) t"

definition initial_velocity :: "('a velocity_uniforms_scheme) \<Rightarrow> vec3" where
  "initial_velocity U =
     Vec3 (xc (initialDirection U) / vlength (initialDirection U) * initialSpeed U)
          (yc (initialDirection U) / vlength (initialDirection U) * initialSpeed U)
          (zc (initialDirection U) / vlength (initialDirection U) * initialSpeed U)"

definition has_extent :: "('a velocity_uniforms_scheme) \<Rightarrow> bool" where
  "has_extent U \<longleftrightarrow>
     xc (gridMax U) \<noteq> xc (gridMin U) \<and> yc (gridMax U) \<noteq> yc (gridMin U) \<and>
     zc (gridMax U) \<noteq> zc (gridMin U)"



definition test_velocity_uniforms :: velocity_uniforms where
  "test_velocity_uniforms = \<lparr>time = 0, delta = 1 / 100,
     velocityField = (\<lambda>texCoord. (Vec3 1 0 0, 0)),
     gridMin = Vec3 (- 1) (- 1) (- 1), gridMax = Vec3 1 1 1,
     initialDirection = Vec3 1 0 0, initialSpeed = 1\<rparr>"

section \<open>OBJLoader\<close>

text \<open>
  \<open>BufferGeometry.translate\<close> and \<open>BufferGeometry.scale\<close> on the vertex positions.
\<close>

definition translate :: "vec3 list \<Rightarrow> real \<Rightarrow> real \<Rightarrow> real \<Rightarrow> vec3 list" where
  "translate g tx ty tz = map (\<lambda>v. Vec3 (xc v + tx) (yc v + ty) (zc v + tz)) g"

definition scale :: "vec3 list \<Rightarrow> real \<Rightarrow> real \<Rightarrow> real \<Rightarrow> vec3 list" where
  "scale g sx sy sz = map (\<lambda>v. Vec3 (xc v * sx) (yc v * sy) (zc v * sz)) g"

datatype load_error =
  FileReaderError | ParseError | NoMeshFound | NoBoundingBox | InvalidScaleFactor

text \<open>The message of each error the loader itself creates; the errors of the
  \<open>FileReader\<close> and of the parser bring their own.\<close>

fun message :: "load_error \<Rightarrow> string option" where
  "message NoMeshFound = Some ''No mesh found in OBJ file''"
| "message NoBoundingBox = Some ''Could not compute bounding box''"
| "message InvalidScaleFactor = Some ''Invalid scale factor computed''"
| "message FileReaderError = None"
| "message ParseError = None"

text \<open>
  \<open>normalizeGeometry\<close> works on the geometry in place: the result is the geometry as the
  call leaves it, together with the error thrown, if any. \<open>computeBoundingBox\<close> always
  leaves a box behind, so the test \<open>!bbox\<close> never fires. On vertices with real
  coordinates and in exact arithmetic, the scale \<open>1.0 / maxDim\<close> is Infinity, hence not
  finite, exactly when \<open>maxDim\<close>, the result of \<open>Math.max\<close>, is 0.
\<close>

definition maxDim :: "vec3 \<Rightarrow> real" where
  "maxDim v = max (max (xc v) (yc v)) (zc v)"

definition normalizeGeometry :: "vec3 list \<Rightarrow> vec3 list \<times> load_error option" where
  "normalizeGeometry g =
     (let bbox = computeBoundingBox g;
          center = getCenter bbox;
          g1 = translate g (- xc center) (- yc center) (- zc center);
          bbox2 = computeBoundingBox g1;
          size = getSize bbox2;
          m = maxDim size
      in if m = 0 then (g1, Some InvalidScaleFactor)
         else (let sc = 1 / m in (scale g1 sc sc sc, None)))"

text \<open>
  For the loader the geometry is what three.js holds: its coordinates are JavaScript
  numbers and may be NaN or infinite, and the methods of \<open>BufferGeometry\<close> and \<open>Box3\<close>
  round. So \<open>processObject\<close> and \<open>loadFromFile\<close> take these methods as parameters, over
  any type \<open>'g\<close> of geometries and \<open>'b\<close> of boxes: \<open>computeBoundingBox\<close>, the field
  \<open>boundingBox\<close> (never null after \<open>computeBoundingBox\<close>), \<open>getCenter\<close>, \<open>getSize\<close>,
  \<open>translate\<close>, \<open>scale\<close> and \<open>computeVertexNormals\<close>. None of them throws.
\<close>

datatype jsvec = JSVec (jx: jsnum) (jy: jsnum) (jz: jsnum)

record ('g, 'b) three_lib =
  lib_computeBoundingBox :: "'g \<Rightarrow> 'g"
  lib_boundingBox :: "'g \<Rightarrow> 'b"
  lib_getCenter :: "'b \<Rightarrow> jsvec"
  lib_getSize :: "'b \<Rightarrow> jsvec"
  lib_translate :: "'g \<Rightarrow> jsnum \<Rightarrow> jsnum \<Rightarrow> jsnum \<Rightarrow> 'g"
  lib_scale :: "'g \<Rightarrow> jsnum \<Rightarrow> jsnum \<Rightarrow> jsnum \<Rightarrow> 'g"
  lib_computeVertexNormals :: "'g \<Rightarrow> 'g"

text \<open>
  The operations of the language itself in \<open>normalizeGeometry\<close>: the unary minus,
  \<open>Math.max\<close> (NaN if an argument is NaN), \<open>1.0 / maxDim\<close> and \<open>isFinite\<close>. \<open>Num 0\<close> stands
  for both zeros, whose reciprocals are the two infinities. The reciprocal of a number
  other than zero is rounded to a double, and is infinite when the rounded value
  reaches \<open>2 ^ 1024\<close>.
\<close>

fun js_neg :: "jsnum \<Rightarrow> jsnum" where
  "js_neg (Num r) = Num (- r)"
| "js_neg NaN = NaN"
| "js_neg PosInfinity = NegInfinity"
| "js_neg NegInfinity = PosInfinity"

fun js_max :: "jsnum \<Rightarrow> jsnum \<Rightarrow> jsnum" where
  "js_max NaN b = NaN"
| "js_max a NaN = NaN"
| "js_max PosInfinity b = PosInfinity"
| "js_max a PosInfinity = PosInfinity"
| "js_max NegInfinity b = b"
| "js_max a NegInfinity = a"
| "js_max (Num a) (Num b) = Num (max a b)"

fun js_reciprocal :: "jsnum \<Rightarrow> jsnum" where
  "js_reciprocal (Num r) =
     (if r = 0 then PosInfinity
      else if 2 ^ 1024 \<le> \<bar>fl 53 (- 1074) (1 / r)\<bar>
           then (if 0 < r then PosInfinity else NegInfinity)
           else Num (fl 53 (- 1074) (1 / r)))"
| "js_reciprocal NaN = NaN"
| "js_reciprocal PosInfinity = Num 0"
| "js_reciprocal NegInfinity = Num 0"

fun js_isFinite :: "jsnum \<Rightarrow> bool" where
  "js_isFinite (Num r) = True"
| "js_isFinite NaN = False"
| "js_isFinite PosInfinity = False"
| "js_isFinite NegInfinity = False"

text \<open>
  \<open>normalizeGeometry\<close> with the methods of three.js as parameters: the geometry as the
  call leaves it, and the error thrown, if any.
\<close>

definition normalizeGeometry_lib ::
  "('g, 'b) three_lib \<Rightarrow> 'g \<Rightarrow> 'g \<times> load_error option" where
  "normalizeGeometry_lib lib g =
     (let g0 = lib_computeBoundingBox lib g;
          bbox = lib_boundingBox lib g0;
          center = lib_getCenter lib bbox;
          g1 = lib_translate lib g0 (js_neg (jx center)) (js_neg (jy center)) (js_neg (jz center));
          g2 = lib_computeBoundingBox lib g1;
          bbox2 = lib_boundingBox lib g2;
          size = lib_getSize lib bbox2;
          m = js_max (js_max (jx size) (jy size)) (jz size);
          sc = js_reciprocal m
      in if \<not> js_isFinite sc then (g2, Some InvalidScaleFactor)
         else (lib_computeVertexNormals lib (lib_scale lib g2 sc sc sc), None))"

text \<open>
  The object hierarchy \<open>ThreeOBJLoader.parse\<close> returns, and \<open>Object3D.traverse\<close>: the
  object itself, then its children's subtrees in order.
\<close>

datatype 'g object3d =
  Object3D (isMesh: bool) (obj_name: string) (obj_geometry: 'g)
    (children: "'g object3d list")

fun traverse :: "'g object3d \<Rightarrow> 'g object3d list" where
  "traverse (Object3D m n g cs) = Object3D m n g cs # concat (map traverse cs)"

text \<open>The callback of \<open>processObject\<close>, on the triple \<open>(geom, meshCount, childCount)\<close>.\<close>

fun visit :: "'g option \<times> nat \<times> nat \<Rightarrow> 'g object3d \<Rightarrow> 'g option \<times> nat \<times> nat" where
  "visit (geom, meshCount, childCount) child =
     (if isMesh child
      then (if geom = None then Some (obj_geometry child) else geom,
            meshCount + 1, childCount + 1)
      else (geom, meshCount, childCount + 1))"

record 'g loaded_mesh =
  lm_id :: nat
  lm_geometry :: 'g
  lm_wireframe :: bool

datatype 'g scene_object = SceneMesh "'g loaded_mesh" | SceneOther string

text \<open>
  The loader: its scene's children, its current mesh, the load counter, and the meshes
  whose geometry and material have been disposed.
\<close>

record 'g obj_loader =
  scene :: "'g scene_object list"
  currentMesh :: "'g loaded_mesh option"
  loadId :: nat
  disposed :: "'g loaded_mesh list"

definition setMesh :: "'g obj_loader \<Rightarrow> 'g loaded_mesh \<Rightarrow> 'g obj_loader" where
  "setMesh L m =
     (let L1 = (case currentMesh L of
                  None \<Rightarrow> L
                | Some old \<Rightarrow> L\<lparr>scene := remove1 (SceneMesh old) (scene L),
                                disposed := disposed L @ [old]\<rparr>);
          m' = m\<lparr>lm_wireframe := True\<rparr>
      in L1\<lparr>currentMesh := Some m', scene := scene L1 @ [SceneMesh m']\<rparr>)"

text \<open>\<open>processObject\<close>: the loader after the call, or the error thrown; a throw leaves
  the loader as it was.\<close>

definition processObject ::
  "('g, 'b) three_lib \<Rightarrow> 'g obj_loader \<Rightarrow> 'g object3d \<Rightarrow> nat \<Rightarrow> load_error + 'g obj_loader" where
  "processObject lib L object lid =
     (case fst (foldl visit (None, 0, 0) (traverse object)) of
        None \<Rightarrow> Inl NoMeshFound
      | Some geom \<Rightarrow>
          (case normalizeGeometry_lib lib geom of
             (g', Some err) \<Rightarrow> Inl err
           | (g', None) \<Rightarrow>
               Inr (setMesh L \<lparr>lm_id = lid, lm_geometry = g', lm_wireframe = False\<rparr>)))"

text \<open>
  \<open>loadFromFile\<close>. The \<open>FileReader\<close> either fails or delivers the text; the parser of
  three.js, a parameter, either throws (\<open>None\<close>) or returns the object hierarchy. The
  result is the loader afterwards and how the promise settles.
\<close>

datatype file_read = ReadFailed | ReadText string

datatype 'g promise = Resolved "'g loaded_mesh option" | Rejected load_error

definition loadFromFile ::
  "('g, 'b) three_lib \<Rightarrow> (string \<Rightarrow> 'g object3d option) \<Rightarrow> 'g obj_loader \<Rightarrow> file_read \<Rightarrow>
   'g obj_loader \<times> 'g promise" where
  "loadFromFile lib parse L file =
     (let lid = loadId L + 1;
          L = L\<lparr>loadId := lid\<rparr>
      in case file of
           ReadFailed \<Rightarrow> (L, Rejected FileReaderError)
         | ReadText text \<Rightarrow>
             (case parse text of
                None \<Rightarrow> (L, Rejected ParseError)
              | Some object \<Rightarrow>
                  (case processObject lib L object lid of
                     Inl err \<Rightarrow> (L, Rejected err)
                   | Inr L' \<Rightarrow> (L', Resolved (currentMesh L')))))"

text \<open>For the proofs: the scale factor \<open>1.0 / maxDim\<close> that \<open>normalizeGeometry\<close> computes
  for a geometry.\<close>

definition scale_factor :: "('g, 'b) three_lib \<Rightarrow> 'g \<Rightarrow> jsnum" where
  "scale_factor lib g =
     (let g0 = lib_computeBoundingBox lib g;
          center = lib_getCenter lib (lib_boundingBox lib g0);
          g1 = lib_translate lib g0 (js_neg (jx center)) (js_neg (jy center)) (js_neg (jz center));
          size = lib_getSize lib (lib_boundingBox lib (lib_computeBoundingBox lib g1))
      in js_reciprocal (js_max (js_max (jx size) (jy size)) (jz size)))"

text \<open>For the proofs: a scaling by \<open>a\<close> followed by a translation by \<open>t\<close>, on points
  and on boxes.\<close>

definition affine :: "real \<Rightarrow> vec3 \<Rightarrow> vec3 \<Rightarrow> vec3" where
  "affine a t v = Vec3 (xc v * a + xc t) (yc v * a + yc t) (zc v * a + zc t)"

fun box_affine :: "real \<Rightarrow> vec3 \<Rightarrow> box3 \<Rightarrow> box3" where
  "box_affine a t EmptyBox = EmptyBox"
| "box_affine a t (Box3 lo hi) = Box3 (affine a t lo) (affine a t hi)"

fun box_ok :: "box3 \<Rightarrow> bool" where
  "box_ok EmptyBox = True"
| "box_ok (Box3 lo hi) = (xc lo \<le> xc hi \<and> yc lo \<le> yc hi \<and> zc lo \<le> zc hi)"

text \<open>
  Test data. A library over lists of vertices: the box of \<open>Box3\<close> by \<open>Math.min\<close> and
  \<open>Math.max\<close> from \<open>(+Infinity, -Infinity)\<close>, empty when a maximum is below its minimum;
  \<open>translate\<close> and \<open>scale\<close> coordinate by coordinate; sums and products of finite
  numbers exact, those with NaN or an infinity as in IEEE 754.
\<close>

fun js_add :: "jsnum \<Rightarrow> jsnum \<Rightarrow> jsnum" where
  "js_add NaN b = NaN"
| "js_add a NaN = NaN"
| "js_add PosInfinity NegInfinity = NaN"
| "js_add NegInfinity PosInfinity = NaN"
| "js_add PosInfinity b = PosInfinity"
| "js_add a PosInfinity = PosInfinity"
| "js_add NegInfinity b = NegInfinity"
| "js_add a NegInfinity = NegInfinity"
| "js_add (Num a) (Num b) = Num (a + b)"

definition js_sign_inf :: "real \<Rightarrow> jsnum \<Rightarrow> jsnum" where
  "js_sign_inf r i = (if r = 0 then NaN else if 0 < r then i else js_neg i)"

fun js_mul :: "jsnum \<Rightarrow> jsnum \<Rightarrow> jsnum" where
  "js_mul NaN b = NaN"
| "js_mul a NaN = NaN"
| "js_mul (Num a) (Num b) = Num (a * b)"
| "js_mul (Num a) b = js_sign_inf a b"
| "js_mul a (Num b) = js_sign_inf b a"
| "js_mul PosInfinity b = b"
| "js_mul NegInfinity b = js_neg b"

fun js_min :: "jsnum \<Rightarrow> jsnum \<Rightarrow> jsnum" where
  "js_min NaN b = NaN"
| "js_min a NaN = NaN"
| "js_min NegInfinity b = NegInfinity"
| "js_min a NegInfinity = NegInfinity"
| "js_min PosInfinity b = b"
| "js_min a PosInfinity = a"
| "js_min (Num a) (Num b) = Num (min a b)"

fun js_less :: "jsnum \<Rightarrow> jsnum \<Rightarrow> bool" where
  "js_less NaN b = False"
| "js_less a NaN = False"
| "js_less a NegInfinity = False"
| "js_less PosInfinity b = False"
| "js_less NegInfinity b = True"
| "js_less a PosInfinity = True"
| "js_less (Num a) (Num b) = (a < b)"

datatype jsbox = JSBox (jmin: jsvec) (jmax: jsvec)

definition js_expandByPoint :: "jsbox \<Rightarrow> jsvec \<Rightarrow> jsbox" where
  "js_expandByPoint b p =
     JSBox (JSVec (js_min (jx (jmin b)) (jx p)) (js_min (jy (jmin b)) (jy p))
                  (js_min (jz (jmin b)) (jz p)))
           (JSVec (js_max (jx (jmax b)) (jx p)) (js_max (jy (jmax b)) (jy p))
                  (js_max (jz (jmax b)) (jz p)))"

definition js_boundingBox :: "jsvec list \<Rightarrow> jsbox" where
  "js_boundingBox g =
     foldl js_expandByPoint
       (JSBox (JSVec PosInfinity PosInfinity PosInfinity)
              (JSVec NegInfinity NegInfinity NegInfinity)) g"

definition js_isEmpty :: "jsbox \<Rightarrow> bool" where
  "js_isEmpty b \<longleftrightarrow>
     js_less (jx (jmax b)) (jx (jmin b)) \<or> js_less (jy (jmax b)) (jy (jmin b)) \<or>
     js_less (jz (jmax b)) (jz (jmin b))"

definition js_getCenter :: "jsbox \<Rightarrow> jsvec" where
  "js_getCenter b =
     (if js_isEmpty b then JSVec (Num 0) (Num 0) (Num 0)
      else JSVec (js_mul (js_add (jx (jmin b)) (jx (jmax b))) (Num 0.5))
                 (js_mul (js_add (jy (jmin b)) (jy (jmax b))) (Num 0.5))
                 (js_mul (js_add (jz (jmin b)) (jz (jmax b))) (Num 0.5)))"

definition js_getSize :: "jsbox \<Rightarrow> jsvec" where
  "js_getSize b =
     (if js_isEmpty b then JSVec (Num 0) (Num 0) (Num 0)
      else JSVec (js_add (jx (jmax b)) (js_neg (jx (jmin b))))
                 (js_add (jy (jmax b)) (js_neg (jy (jmin b))))
                 (js_add (jz (jmax b)) (js_neg (jz (jmin b)))))"

definition vertex_lib :: "(jsvec list, jsbox) three_lib" where
  "vertex_lib =
     \<lparr>lib_computeBoundingBox = (\<lambda>g. g),
      lib_boundingBox = js_boundingBox,
      lib_getCenter = js_getCenter,
      lib_getSize = js_getSize,
      lib_translate = (\<lambda>g tx ty tz.
         map (\<lambda>v. JSVec (js_add (jx v) tx) (js_add (jy v) ty) (js_add (jz v) tz)) g),
      lib_scale = (\<lambda>g sx sy sz.
         map (\<lambda>v. JSVec (js_mul (jx v) sx) (js_mul (jy v) sy) (js_mul (jz v) sz)) g),
      lib_computeVertexNormals = (\<lambda>g. g)\<rparr>"

text \<open>A loader holding a mesh; a hierarchy whose only mesh has all its vertices in one
  point, one whose mesh has NaN coordinates, one with a proper mesh below a group, one
  without a mesh; a parser returning a given hierarchy and one that throws.\<close>

definition test_loader :: "jsvec list obj_loader" where
  "test_loader = \<lparr>scene = [SceneOther ''light'',
       SceneMesh \<lparr>lm_id = 0, lm_geometry = [JSVec (Num 0) (Num 0) (Num 0), JSVec (Num 1) (Num 1) (Num 1)],
         lm_wireframe = True\<rparr>],
     currentMesh = Some \<lparr>lm_id = 0,
       lm_geometry = [JSVec (Num 0) (Num 0) (Num 0), JSVec (Num 1) (Num 1) (Num 1)],
       lm_wireframe = True\<rparr>,
     loadId = 0, disposed = []\<rparr>"

definition degenerate_object :: "jsvec list object3d" where
  "degenerate_object = Object3D True ''point''
     [JSVec (Num 1) (Num 1) (Num 1), JSVec (Num 1) (Num 1) (Num 1), JSVec (Num 1) (Num 1) (Num 1)] []"

definition nan_object :: "jsvec list object3d" where
  "nan_object = Object3D True ''mesh''
     [JSVec NaN NaN NaN, JSVec NaN NaN NaN, JSVec NaN NaN NaN] []"

definition proper_object :: "jsvec list object3d" where
  "proper_object = Object3D False ''group'' []
     [Object3D True ''box'' [JSVec (Num 0) (Num 0) (Num 0), JSVec (Num 2) (Num 1) (Num 1)] []]"

definition const_parser :: "'g object3d \<Rightarrow> string \<Rightarrow> 'g object3d option" where
  "const_parser object text = Some object"

definition empty_object :: "jsvec list object3d" where
  "empty_object = Object3D False ''group'' [] []"

definition failing_parser :: "string \<Rightarrow> jsvec list object3d option" where
  "failing_parser text = None"

section \<open>ParticleSystem\<close>

text \<open>
  The JavaScript side of the particle system. A number a caller passes may be NaN or
  infinite (\<open>parseInt\<close> and \<open>parseFloat\<close> of the controls' values), which matters for the
  truthiness tests of \<open>updateParams\<close>: 0 and NaN are falsy, every other number is truthy.
\<close>

text \<open>
  A uniforms object maps names to values: a number, a \<open>Vector3\<close>, \<open>null\<close>, the velocity
  field's 3D texture (its data and resolution), or the texture of a render target of
  the compute renderer (the variable's name and the target's index).
\<close>

datatype uniform_value =
  UNum jsnum | UVec vec3 | UNull | UField "real list" nat | UTarget string nat

type_synonym uniforms = "string \<rightharpoonup> uniform_value"

text \<open>\<open>VelocityField\<close>: \<open>texture\<close> is \<open>null\<close> until \<open>generate\<close> has run.\<close>

record velocity_field =
  vf_resolution :: nat
  vf_data :: "real list option"
  vf_texture :: "(real list \<times> nat) option"

definition VelocityField_new :: velocity_field where
  "VelocityField_new = \<lparr>vf_resolution = 64, vf_data = None, vf_texture = None\<rparr>"

definition generate :: "velocity_field \<Rightarrow> mesh option \<Rightarrow> nat \<Rightarrow> string \<Rightarrow> velocity_field option" where
  "generate vf m res method =
     (case generate_data res method m of
        None \<Rightarrow> None
      | Some d \<Rightarrow> Some \<lparr>vf_resolution = res, vf_data = Some d, vf_texture = Some (d, res)\<rparr>)"

text \<open>
  The state of a \<open>ParticleSystem\<close>: its constants, the compute renderer (texture size,
  index of the current render targets, number of compute runs so far), the uniforms of
  the two compute passes and those of the display material.
\<close>

record particle_system =
  WIDTH :: nat
  COUNT :: nat
  sizeX :: nat
  sizeY :: nat
  currentTextureIndex :: nat
  computeRuns :: nat
  positionUniforms :: uniforms
  velocityUniforms :: uniforms
  materialUniforms :: uniforms

text \<open>The version with a plane emitter also keeps the emitter's parameters as fields.\<close>

record plane_particle_system = particle_system +
  this_emitterWidth :: real
  this_emitterHeight :: real
  this_emitterPosX :: real
  this_emitterPosY :: real
  this_emitterPosZ :: real

text \<open>The constructors: \<open>ParticleSystem.js\<close>, and the version with the plane emitter.\<close>

definition ParticleSystem_new :: particle_system where
  "ParticleSystem_new =
     \<lparr>WIDTH = 256, COUNT = 256 * 256, sizeX = 256, sizeY = 256,
      currentTextureIndex = 0, computeRuns = 0,
      positionUniforms =
        [''time'' \<mapsto> UNum (Num 0), ''delta'' \<mapsto> UNum (Num 0),
         ''maxAge'' \<mapsto> UNum (Num 300), ''emitterPos'' \<mapsto> UVec (Vec3 (- 1) 0 0),
         ''boundsMin'' \<mapsto> UVec (Vec3 (- 2) (- 2) (- 2)),
         ''boundsMax'' \<mapsto> UVec (Vec3 2 2 2),
         ''speedMultiplier'' \<mapsto> UNum (Num 1),
         ''emissionShape'' \<mapsto> UNum (Num 0),
         ''emissionRadius'' \<mapsto> UNum (Num 0.2)],
      velocityUniforms =
        [''time'' \<mapsto> UNum (Num 0), ''delta'' \<mapsto> UNum (Num 0),
         ''gridMin'' \<mapsto> UVec (Vec3 (- 1) (- 1) (- 1)),
         ''gridMax'' \<mapsto> UVec (Vec3 1 1 1),
         ''initialDirection'' \<mapsto> UVec (Vec3 1 0 0),
         ''initialSpeed'' \<mapsto> UNum (Num 1),
         ''velocityField'' \<mapsto> UNull],
      materialUniforms =
        [''texturePosition'' \<mapsto> UNull, ''textureVelocity'' \<mapsto> UNull,
         ''pointSize'' \<mapsto> UNum (Num 2)]\<rparr>"

definition ParticleSystem_new_plane :: plane_particle_system where
  "ParticleSystem_new_plane =
     \<lparr>WIDTH = 128, COUNT = 128 * 128, sizeX = 128, sizeY = 128,
      currentTextureIndex = 0, computeRuns = 0,
      positionUniforms =
        [''time'' \<mapsto> UNum (Num 0), ''delta'' \<mapsto> UNum (Num 0),
         ''maxAge'' \<mapsto> UNum (Num 500), ''emitterPos'' \<mapsto> UVec (Vec3 (- 2) 0 0),
         ''emitterWidth'' \<mapsto> UNum (Num 1.5), ''emitterHeight'' \<mapsto> UNum (Num 1.5),
         ''boundsMin'' \<mapsto> UVec (Vec3 (- 5) (- 5) (- 5)),
         ''boundsMax'' \<mapsto> UVec (Vec3 5 5 5),
         ''speedMultiplier'' \<mapsto> UNum (Num 2)],
      velocityUniforms =
        [''time'' \<mapsto> UNum (Num 0), ''delta'' \<mapsto> UNum (Num 0),
         ''gridMin'' \<mapsto> UVec (Vec3 (- 1) (- 1) (- 1)),
         ''gridMax'' \<mapsto> UVec (Vec3 1 1 1),
         ''initialDirection'' \<mapsto> UVec (Vec3 1 0 0),
         ''initialSpeed'' \<mapsto> UNum (Num 0.5),
         ''velocityField'' \<mapsto> UNull,
         ''dragCoefficient'' \<mapsto> UNum (Num 0.85)],
      materialUniforms =
        [''texturePosition'' \<mapsto> UNull, ''textureVelocity'' \<mapsto> UNull,
         ''pointSize'' \<mapsto> UNum (Num 1.5)],
      this_emitterWidth = 1.5, this_emitterHeight = 1.5,
      this_emitterPosX = - 2, this_emitterPosY = 0, this_emitterPosZ = 0\<rparr>"

text \<open>
  \<open>update(time, deltaTime)\<close>, the same in both versions. \<open>gpuCompute.compute()\<close> renders
  both passes into the other set of render targets and makes it the current one;
  \<open>getCurrentRenderTarget\<close> then gives that set's textures.
\<close>

definition update ::
  "velocity_field \<Rightarrow> ('a particle_system_scheme) \<Rightarrow> jsnum \<Rightarrow> jsnum \<Rightarrow> 'a particle_system_scheme" where
  "update vf S t deltaTime =
     (case vf_texture vf of
        None \<Rightarrow> S
      | Some (d, res) \<Rightarrow>
          (let pu = (positionUniforms S)(''time'' \<mapsto> UNum t, ''delta'' \<mapsto> UNum deltaTime);
               vu = (velocityUniforms S)(''time'' \<mapsto> UNum t, ''delta'' \<mapsto> UNum deltaTime,
                      ''velocityField'' \<mapsto> UField d res);
               nextTextureIndex = (if currentTextureIndex S = 0 then 1 else 0)
           in S\<lparr>positionUniforms := pu, velocityUniforms := vu,
                 currentTextureIndex := nextTextureIndex,
                 computeRuns := computeRuns S + 1,
                 materialUniforms := (materialUniforms S)
                   (''texturePosition'' \<mapsto> UTarget ''texturePosition'' nextTextureIndex,
                    ''textureVelocity'' \<mapsto> UTarget ''textureVelocity'' nextTextureIndex)\<rparr>))"

text \<open>
  The \<open>params\<close> object of \<open>updateParams\<close>: a field is \<open>None\<close> when the key is absent (or
  \<open>undefined\<close>). The field \<open>p_k\<close> stands for the key \<open>k\<close>.
\<close>

record params =
  p_emitterPos :: "vec3 option"
  p_lifespan :: "jsnum option"
  p_speedMultiplier :: "jsnum option"
  p_emissionRate :: "jsnum option"
  p_emissionShape :: "jsnum option"
  p_emissionRadius :: "jsnum option"
  p_emitterWidth :: "jsnum option"
  p_emitterHeight :: "jsnum option"

definition no_params :: params where
  "no_params = \<lparr>p_emitterPos = None, p_lifespan = None, p_speedMultiplier = None,
     p_emissionRate = None, p_emissionShape = None, p_emissionRadius = None,
     p_emitterWidth = None, p_emitterHeight = None\<rparr>"

text \<open>\<open>if (params.k) uniforms[name].value = params.k\<close>, for a number.\<close>

definition set_if_truthy :: "uniforms \<Rightarrow> string \<Rightarrow> jsnum option \<Rightarrow> uniforms" where
  "set_if_truthy U name v =
     (case v of None \<Rightarrow> U | Some n \<Rightarrow> if truthy n then U(name \<mapsto> UNum n) else U)"

text \<open>\<open>if (params.k !== undefined) uniforms[name].value = params.k\<close>.\<close>

definition set_if_defined :: "uniforms \<Rightarrow> string \<Rightarrow> jsnum option \<Rightarrow> uniforms" where
  "set_if_defined U name v = (case v of None \<Rightarrow> U | Some n \<Rightarrow> U(name \<mapsto> UNum n))"

text \<open>\<open>updateParams\<close> of \<open>ParticleSystem.js\<close>. A \<open>Vector3\<close> is an object, hence truthy;
  the branch for \<open>emissionRate\<close> is empty.\<close>

definition updateParams :: "particle_system \<Rightarrow> params \<Rightarrow> particle_system" where
  "updateParams S p =
     (let pu = positionUniforms S;
          pu = (case p_emitterPos p of None \<Rightarrow> pu | Some v \<Rightarrow> pu(''emitterPos'' \<mapsto> UVec v));
          pu = set_if_truthy pu ''maxAge'' (p_lifespan p);
          pu = set_if_truthy pu ''speedMultiplier'' (p_speedMultiplier p);
          pu = (case p_emissionRate p of None \<Rightarrow> pu | Some n \<Rightarrow> if truthy n then pu else pu);
          pu = set_if_defined pu ''emissionShape'' (p_emissionShape p);
          pu = set_if_defined pu ''emissionRadius'' (p_emissionRadius p)
      in S\<lparr>positionUniforms := pu\<rparr>)"

text \<open>\<open>updateParams\<close> of the version with the plane emitter.\<close>

definition updateParams_plane :: "plane_particle_system \<Rightarrow> params \<Rightarrow> plane_particle_system" where
  "updateParams_plane S p =
     (let S = (case p_emitterPos p of
                 None \<Rightarrow> S
               | Some v \<Rightarrow> S\<lparr>positionUniforms := (positionUniforms S)(''emitterPos'' \<mapsto> UVec v),
                              this_emitterPosX := xc v, this_emitterPosY := yc v,
                              this_emitterPosZ := zc v\<rparr>);
          pu = positionUniforms S;
          pu = set_if_truthy pu ''maxAge'' (p_lifespan p);
          pu = set_if_truthy pu ''speedMultiplier'' (p_speedMultiplier p);
          pu = set_if_truthy pu ''emitterWidth'' (p_emitterWidth p);
          pu = set_if_truthy pu ''emitterHeight'' (p_emitterHeight p)
      in S\<lparr>positionUniforms := pu\<rparr>)"

text \<open>The operations a caller has after construction, and a run of them.\<close>

datatype ps_op = Update velocity_field jsnum jsnum | UpdateParams params

fun apply_op :: "particle_system \<Rightarrow> ps_op \<Rightarrow> particle_system" where
  "apply_op S (Update vf t dt) = update vf S t dt"
| "apply_op S (UpdateParams p) = updateParams S p"

fun apply_op_plane :: "plane_particle_system \<Rightarrow> ps_op \<Rightarrow> plane_particle_system" where
  "apply_op_plane S (Update vf t dt) = update vf S t dt"
| "apply_op_plane S (UpdateParams p) = updateParams_plane S p"

text \<open>Parameters with every numeric key set to 0, and parameters with a position, a
  truthy lifespan and a speed multiplier that is NaN.\<close>

definition zero_params :: params where
  "zero_params = no_params\<lparr>p_lifespan := Some (Num 0), p_speedMultiplier := Some (Num 0),
     p_emissionShape := Some (Num 0), p_emissionRadius := Some (Num 0)\<rparr>"


definition some_params :: params where
  "some_params = no_params\<lparr>p_emitterPos := Some (Vec3 0 1 2), p_lifespan := Some (Num 100),
     p_speedMultiplier := Some NaN\<rparr>"

section \<open>Properties of VelocityField.generate\<close>





lemma length_write_cell [simp]: "length (write_cell d s v) = length d"
  by (simp add: write_cell_def)

lemma write_cell_nth:
  assumes "i * 4 + 3 < length d"
  shows "write_cell d (i * 4) v ! j = (if j div 4 = i then comp4 v (j mod 4) else d ! j)"
proof (cases "j div 4 = i")
  case True
  then obtain k where k: "j = i * 4 + k" "k < 4"
    by (metis add.commute mod_less_divisor mult.commute mult_div_mod_eq zero_less_numeral)
  then have "k = 0 \<or> k = 1 \<or> k = 2 \<or> k = 3" by arith
  with k assms True show ?thesis
    by (auto simp: write_cell_def comp4_def nth_list_update)
next
  case False
  then have "j \<noteq> i * 4" "j \<noteq> i * 4 + 1" "j \<noteq> i * 4 + 2" "j \<noteq> i * 4 + 3"
    by auto
  with False show ?thesis
    by (simp add: write_cell_def nth_list_update)
qed

lemma length_fold_writes [simp]:
  "length (foldl (\<lambda>d x. write_cell d (g x) (f x)) d xs) = length d"
  by (induction xs arbitrary: d) simp_all

lemma fold_writes_nth:
  assumes "(b + n) * 4 \<le> length d"
  shows "foldl (\<lambda>d x. write_cell d ((b + x) * 4) (f x)) d [0..<n] ! j =
     (if b \<le> j div 4 \<and> j div 4 < b + n then comp4 (f (j div 4 - b)) (j mod 4) else d ! j)"
  using assms
proof (induction n)
  case 0
  then show ?case by simp
next
  case (Suc n)
  let ?F = "foldl (\<lambda>d x. write_cell d ((b + x) * 4) (f x)) d [0..<n]"
  have len: "(b + n) * 4 + 3 < length ?F"
    using Suc.prems by (simp only: length_fold_writes) simp
  have "(b + n) * 4 \<le> length d" using Suc.prems by simp
  note IH = Suc.IH [OF this]
  have step: "foldl (\<lambda>d x. write_cell d ((b + x) * 4) (f x)) d [0..<Suc n] =
      write_cell ?F ((b + n) * 4) (f n)"
    by (simp only: upt_Suc_append [OF le0] foldl_append foldl.simps)
  show ?case
  proof (cases "j div 4 = b + n")
    case True
    then show ?thesis
      by (simp only: step write_cell_nth [OF len]) simp
  next
    case False
    then have "(b \<le> j div 4 \<and> j div 4 < b + Suc n) = (b \<le> j div 4 \<and> j div 4 < b + n)"
      by auto
    with False show ?thesis
      by (simp only: step write_cell_nth [OF len] IH if_False)
  qed
qed


lemma index_decode:
  fixes x y z res :: nat
  assumes "x < res" "y < res"
  shows "(z * res * res + y * res + x) mod res = x"
    and "((z * res * res + y * res + x) div res) mod res = y"
    and "(z * res * res + y * res + x) div (res * res) = z"
proof -
  have pos: "0 < res" using assms by simp
  have e: "z * res * res + y * res + x = x + (y + z * res) * res"
    by (simp add: algebra_simps)
  show "(z * res * res + y * res + x) mod res = x"
    using assms by (simp add: e)
  have d: "(z * res * res + y * res + x) div res = y + z * res"
    using assms by (simp add: e)
  show "((z * res * res + y * res + x) div res) mod res = y"
    using assms by (simp add: d)
  have "(z * res * res + y * res + x) div (res * res) = (y + z * res) div res"
    by (simp only: div_mult2_eq [symmetric] d [symmetric])
  then show "(z * res * res + y * res + x) div (res * res) = z"
    using assms by simp
qed

lemma length_fill_x [simp]: "length (fill_x res f z d y) = length d"
  by (simp only: fill_x_def length_fold_writes)

lemma length_fill_y [simp]: "length (foldl (fill_x res f z) d ys) = length d"
  by (induction ys arbitrary: d) simp_all

lemma length_fill_z [simp]: "length (foldl (fill_y res f) d zs) = length d"
  by (induction zs arbitrary: d) (simp_all add: fill_y_def)

lemma fill_x_nth:
  assumes "(z * res * res + y * res + res) * 4 \<le> length d" "y < res"
  shows "fill_x res f z d y ! j =
     (if z * res * res + y * res \<le> j div 4 \<and> j div 4 < z * res * res + y * res + res
      then comp4 (fill_value res f (j div 4)) (j mod 4) else d ! j)"
proof -
  let ?b = "z * res * res + y * res"
  let ?f = "\<lambda>x. f x y z"
  have eq: "fill_x res f z d y = foldl (\<lambda>d x. write_cell d ((?b + x) * 4) (?f x)) d [0..<res]"
    by (simp only: fill_x_def)
  have gv: "fill_value res f (?b + x) = ?f x" if "x < res" for x
    by (simp only: fill_value_def index_decode [OF that assms(2)])
  have "?f (j div 4 - ?b) = fill_value res f (j div 4)"
    if "?b \<le> j div 4" "j div 4 < ?b + res"
  proof -
    define x where "x = j div 4 - ?b"
    have x: "j div 4 = ?b + x" "x < res"
      using that unfolding x_def by arith+
    show ?thesis
      using gv [OF x(2)] unfolding x(1) by (simp only: add_diff_cancel_left')
  qed
  note key = this
  have sel: "(if ?b \<le> j div 4 \<and> j div 4 < ?b + res
        then comp4 (?f (j div 4 - ?b)) (j mod 4) else d ! j) =
      (if ?b \<le> j div 4 \<and> j div 4 < ?b + res
        then comp4 (fill_value res f (j div 4)) (j mod 4) else d ! j)"
  proof (cases "?b \<le> j div 4 \<and> j div 4 < ?b + res")
    case True
    then have "?f (j div 4 - ?b) = fill_value res f (j div 4)"
      using key by blast
    then show ?thesis by (simp only:)
  next
    case False
    then show ?thesis by (simp only: if_False)
  qed
  show ?thesis
    using fold_writes_nth [of ?b res d ?f j, OF assms(1)]
    by (simp only: eq sel)
qed

lemma fill_y_nth:
  assumes "(z * res * res + n * res) * 4 \<le> length d" "n \<le> res"
  shows "foldl (fill_x res f z) d [0..<n] ! j =
     (if z * res * res \<le> j div 4 \<and> j div 4 < z * res * res + n * res
      then comp4 (fill_value res f (j div 4)) (j mod 4) else d ! j)"
  using assms
proof (induction n)
  case 0
  then show ?case by simp
next
  case (Suc n)
  let ?F = "foldl (fill_x res f z) d [0..<n]"
  have a: "(z * res * res + n * res) * 4 \<le> length d" "n \<le> res" "n < res"
    using Suc.prems by simp_all
  note IH = Suc.IH [OF a(1) a(2)]
  have len: "(z * res * res + n * res + res) * 4 \<le> length ?F"
    using Suc.prems by (simp add: algebra_simps)
  have step: "foldl (fill_x res f z) d [0..<Suc n] = fill_x res f z ?F n"
    by simp
  show ?case
    by (simp only: step fill_x_nth [OF len a(3)] IH) (auto simp: algebra_simps)
qed

lemma fill_z_nth:
  assumes "n * res * res * 4 \<le> length d"
  shows "foldl (fill_y res f) d [0..<n] ! j =
     (if j div 4 < n * res * res
      then comp4 (fill_value res f (j div 4)) (j mod 4) else d ! j)"
  using assms
proof (induction n)
  case 0
  then show ?case by simp
next
  case (Suc n)
  let ?F = "foldl (fill_y res f) d [0..<n]"
  have a: "n * res * res * 4 \<le> length d"
    using Suc.prems by (simp add: algebra_simps)
  note IH = Suc.IH [OF a]
  have len: "(n * res * res + res * res) * 4 \<le> length ?F"
    using Suc.prems by (simp add: algebra_simps)
  have step: "foldl (fill_y res f) d [0..<Suc n] = foldl (fill_x res f n) ?F [0..<res]"
    by (simp add: fill_y_def)
  show ?case
    by (simp only: step fill_y_nth [OF len order_refl] IH) (auto simp: algebra_simps)
qed

lemma fill_z_cell:
  assumes "length d = res * res * res * 4" "x < res" "y < res" "z < res"
  shows "stored_velocity (fill_z res f d) (cell_index res x y z) =
           f x y z"
    and "stored_alpha (fill_z res f d) (cell_index res x y z) = 0"
proof -
  let ?i = "cell_index res x y z"
  have len: "res * res * res * 4 \<le> length d" using assms(1) by simp
  have a: "y * res + x < Suc y * res" using assms(2) by simp
  have b: "Suc y * res \<le> res * res"
    using assms(3) by (intro mult_le_mono1) simp
  have c: "Suc z * (res * res) \<le> res * (res * res)"
    using assms(4) by (intro mult_le_mono1) simp
  have "z * res * res + y * res + x < z * (res * res) + res * res"
    using a b by (simp add: mult.assoc)
  also have "\<dots> = Suc z * (res * res)" by simp
  also have "\<dots> \<le> res * res * res" using c by (simp add: mult.assoc)
  finally have lt: "?i < res * res * res" by (simp only: cell_index_def)
  have gv: "fill_value res f ?i = f x y z"
    by (simp only: fill_value_def cell_index_def index_decode [OF assms(2,3)])
  have nth: "fill_z res f d ! (?i * 4 + k) = comp4 (f x y z) k"
    if "k < 4" for k
  proof -
    have dm: "(?i * 4 + k) div 4 = ?i" "(?i * 4 + k) mod 4 = k" using that by simp_all
    show ?thesis
      using lt by (simp only: fill_z_def fill_z_nth [OF len] dm gv if_True)
  qed
  show "stored_velocity (fill_z res f d) ?i = f x y z"
    using nth [of 0] nth [of 1] nth [of 2]
    by (simp add: stored_velocity_def comp4_def)
  show "stored_alpha (fill_z res f d) ?i = 0"
    using nth [of 3] by (simp add: stored_alpha_def comp4_def)
qed

lemma length_fill_z_full [simp]: "length (fill_z res f d) = length d"
  by (simp add: fill_z_def)


lemma cell_body_eq:
  "cell_body res h method m z y =
     (\<lambda>d x. write_cell d ((z * res * res + y * res + x) * 4) (cell_velocity method m (cell_pos h x y z)))"
  by (rule ext)+ (simp only: cell_body_def Let_def)

lemma z_loop_fill:
  "z_loop res h method m = fill_z res (\<lambda>x y z. cell_velocity method m (cell_pos h x y z))"
proof -
  have x: "x_loop res h method m z = fill_x res (\<lambda>x y z. cell_velocity method m (cell_pos h x y z)) z"
    for z
    by (rule ext)+ (simp only: x_loop_def fill_x_def cell_body_eq)
  have y: "y_loop res h method m = fill_y res (\<lambda>x y z. cell_velocity method m (cell_pos h x y z))"
    by (rule ext)+ (simp only: y_loop_def fill_y_def x)
  show ?thesis
    by (rule ext) (simp only: z_loop_def fill_z_def y)
qed


lemma length_z_loop_full [simp]: "length (z_loop res h method m d) = length d"
  by (simp only: z_loop_fill length_fill_z_full)




lemma vlength_normalize:
  assumes "vlength pos > 0"
  shows "normalize pos = Vec3 (xc pos / vlength pos) (yc pos / vlength pos) (zc pos / vlength pos)"
    and "vlength (normalize pos) = 1"
proof -
  let ?l = "vlength pos"
  show n: "normalize pos = Vec3 (xc pos / ?l) (yc pos / ?l) (zc pos / ?l)"
    using assms by (simp add: normalize_def divideScalar_def multiplyScalar_def)
  have sq: "?l * ?l = xc pos * xc pos + yc pos * yc pos + zc pos * zc pos"
    unfolding vlength_def
    by (simp add: add_nonneg_nonneg)
  have "xc pos / ?l * (xc pos / ?l) + yc pos / ?l * (yc pos / ?l) + zc pos / ?l * (zc pos / ?l)
      = (xc pos * xc pos + yc pos * yc pos + zc pos * zc pos) / (?l * ?l)"
    by (simp add: add_divide_distrib)
  also have "\<dots> = 1" using assms by (simp add: sq [symmetric])
  finally show "vlength (normalize pos) = 1"
    by (simp add: n vlength_def)
qed



subsection \<open>The radial flow in the arithmetic of the engine\<close>

lemma write_cell_fp_eq:
  assumes "fp_fround F 0 = 0"
  shows "write_cell_fp F d s v = write_cell d s (fround3 F v)"
  using assms by (simp add: write_cell_fp_def write_cell_def fround3_def)

lemma z_loop_fp_fill:
  assumes "fp_fround F 0 = 0"
  shows "z_loop_fp F res h method m =
     fill_z res (\<lambda>x y z. fround3 F (cell_velocity_fp F method m (cell_pos_fp F h x y z)))"
proof -
  have b: "cell_body_fp F res h method m z y =
     (\<lambda>d x. write_cell d ((z * res * res + y * res + x) * 4)
        (fround3 F (cell_velocity_fp F method m (cell_pos_fp F h x y z))))" for z y
    by (rule ext)+ (simp only: cell_body_fp_def Let_def write_cell_fp_eq [OF assms])
  have x: "x_loop_fp F res h method m z =
     fill_x res (\<lambda>x y z. fround3 F (cell_velocity_fp F method m (cell_pos_fp F h x y z))) z"
    for z
    by (rule ext)+ (simp only: x_loop_fp_def fill_x_def b)
  have y: "y_loop_fp F res h method m =
     fill_y res (\<lambda>x y z. fround3 F (cell_velocity_fp F method m (cell_pos_fp F h x y z)))"
    by (rule ext)+ (simp only: y_loop_fp_def fill_y_def x)
  show ?thesis
    by (rule ext) (simp only: z_loop_fp_def fill_z_def y)
qed

lemma z_loop_fp_cell:
  assumes "fp_fround F 0 = 0"
    and "length d = res * res * res * 4" "x < res" "y < res" "z < res"
  shows "stored_velocity (z_loop_fp F res h method m d) (cell_index res x y z) =
           fround3 F (cell_velocity_fp F method m (cell_pos_fp F h x y z))"
  unfolding z_loop_fp_fill [OF assms(1)]
  by (rule fill_z_cell(1) [OF assms(2-5)])

lemma generate_fp_cell:
  assumes "fp_fround F 0 = 0" "res \<noteq> 1" "x < res" "y < res" "z < res"
  shows "\<exists>data. generate_data_fp F res method m = Some data \<and>
           stored_velocity data (cell_index res x y z) =
             fround3 F (cell_velocity_fp F method m
               (cell_pos_fp F (fp_mul F 2 (fp_div F 1 (real res - 1))) x y z))"
proof -
  have "generate_data_fp F res method m =
          Some (z_loop_fp F res (fp_mul F 2 (fp_div F 1 (real res - 1))) method m
                  (replicate (res * res * res * 4) 0))"
    using assms(2) by (simp add: generate_data_fp_def grid_step_fp_def)
  moreover have "stored_velocity (z_loop_fp F res (fp_mul F 2 (fp_div F 1 (real res - 1))) method m
                  (replicate (res * res * res * 4) 0)) (cell_index res x y z) =
             fround3 F (cell_velocity_fp F method m
               (cell_pos_fp F (fp_mul F 2 (fp_div F 1 (real res - 1))) x y z))"
    by (rule z_loop_fp_cell [OF assms(1) _ assms(3-5)]) simp
  ultimately show ?thesis by simp
qed

lemma vlength_fp_exact: "vlength_fp exact_arithmetic v = vlength v"
  by (simp add: vlength_fp_def exact_arithmetic_def vlength_def power2_eq_square)

lemma normalize_fp_exact: "normalize_fp exact_arithmetic v = normalize v"
  by (simp add: normalize_fp_def normalize_def divideScalar_fp_def divideScalar_def
      multiplyScalar_fp_def multiplyScalar_def vlength_fp_exact)
    (simp add: exact_arithmetic_def)

lemma cell_pos_fp_exact: "cell_pos_fp exact_arithmetic h x y z = cell_pos h x y z"
  by (simp add: cell_pos_fp_def cell_pos_def exact_arithmetic_def)

lemma cell_velocity_fp_exact: "cell_velocity_fp exact_arithmetic method m pos = cell_velocity method m pos"
  by (simp add: cell_velocity_fp_def cell_velocity_def flow_velocity_fp_def flow_velocity_def
      vlength_fp_exact normalize_fp_exact)
    (simp add: exact_arithmetic_def)

lemma generate_data_fp_exact:
  "generate_data_fp exact_arithmetic res method m = generate_data res method m"
proof -
  have w: "write_cell_fp exact_arithmetic d s v = write_cell d s v" for d s v
    by (simp add: write_cell_fp_def write_cell_def exact_arithmetic_def)
  have b: "cell_body_fp exact_arithmetic res h method m z y = cell_body res h method m z y" for h z y
    by (rule ext)+ (simp only: cell_body_fp_def cell_body_def w cell_velocity_fp_exact cell_pos_fp_exact)
  have x: "x_loop_fp exact_arithmetic res h method m z = x_loop res h method m z" for h z
    by (rule ext)+ (simp only: x_loop_fp_def x_loop_def b)
  have y: "y_loop_fp exact_arithmetic res h method m = y_loop res h method m" for h
    by (rule ext)+ (simp only: y_loop_fp_def y_loop_def x)
  have z: "z_loop_fp exact_arithmetic res h method m = z_loop res h method m" for h
    by (rule ext) (simp only: z_loop_fp_def z_loop_def y)
  have g: "grid_step_fp exact_arithmetic res = grid_step res"
    by (simp add: grid_step_fp_def grid_step_def exact_arithmetic_def)
  show ?thesis
    by (simp only: generate_data_fp_def generate_data_def g z)
qed

lemma round_even_near:
  assumes "real_of_int N - 1 / 2 < y" "y < real_of_int N + 1 / 2"
  shows "round_even y = N"
proof (cases "real_of_int N \<le> y")
  case True
  then have "\<lfloor>y\<rfloor> = N" using assms by linarith
  then show ?thesis using assms by (simp add: round_even_def)
next
  case False
  then have "\<lfloor>y\<rfloor> = N - 1" using assms by linarith
  then show ?thesis using assms False by (simp add: round_even_def)
qed

lemma ilog2_eq:
  "2 powi k \<le> a \<Longrightarrow> a < 2 powi (k + 1) \<Longrightarrow> nat \<bar>k\<bar> \<le> n \<Longrightarrow> ilog2 n a = k"
proof (induction n arbitrary: a k)
  case 0
  then show ?case by simp
next
  case (Suc n)
  show ?case
  proof (cases "a \<ge> 2")
    case True
    have "k \<ge> 1"
    proof (rule ccontr)
      assume "\<not> k \<ge> 1"
      then have "k + 1 \<le> 1" by simp
      then have "(2::real) powi (k + 1) \<le> 2 powi 1" by (intro power_int_increasing) simp_all
      then show False using True Suc.prems(2) by simp
    qed
    have a: "2 powi (k - 1) \<le> a / 2"
      using Suc.prems(1) by (simp add: power_int_diff)
    have b: "a / 2 < 2 powi (k - 1 + 1)"
      using Suc.prems(2) by (simp add: power_int_add)
    have "ilog2 n (a / 2) = k - 1"
      by (rule Suc.IH [OF a b]) (use Suc.prems(3) \<open>k \<ge> 1\<close> in linarith)
    then show ?thesis using True by simp
  next
    case False
    show ?thesis
    proof (cases "a < 1")
      case True
      have "k \<le> - 1"
      proof (rule ccontr)
        assume "\<not> k \<le> - 1"
        then have "0 \<le> k" by simp
        then have "(2::real) powi 0 \<le> 2 powi k" by (intro power_int_increasing) simp_all
        then show False using True Suc.prems(1) by simp
      qed
      have a: "2 powi (k + 1) \<le> a * 2"
        using Suc.prems(1) by (simp add: power_int_add)
      have b: "a * 2 < 2 powi (k + 1 + 1)"
        using Suc.prems(2) by (simp add: power_int_add)
      have "ilog2 n (a * 2) = k + 1"
        by (rule Suc.IH [OF a b]) (use Suc.prems(3) \<open>k \<le> - 1\<close> in linarith)
      then show ?thesis using True False by simp
    next
      case F2: False
      have "k = 0"
      proof (rule ccontr)
        assume "k \<noteq> 0"
        then consider "k \<ge> 1" | "k + 1 \<le> 0" by linarith
        then show False
        proof cases
          case 1
          then have "(2::real) powi 1 \<le> 2 powi k" by (intro power_int_increasing) simp_all
          then show False using False Suc.prems(1) by simp
        next
          case 2
          then have "(2::real) powi (k + 1) \<le> 2 powi 0" by (intro power_int_increasing) simp_all
          then show False using F2 Suc.prems(2) by simp
        qed
      qed
      then show ?thesis using False F2 by simp
    qed
  qed
qed

lemma fl_eval:
  assumes "1 \<le> p" "k + p \<le> 2000" "emin \<le> - int k"
    and "2 ^ (p - 1) \<le> \<bar>x\<bar> * 2 ^ k" "\<bar>x\<bar> * 2 ^ k < 2 ^ p"
    and "real_of_int N - 1 / 2 < x * 2 ^ k" "x * 2 ^ k < real_of_int N + 1 / 2"
  shows "fl p emin x = real_of_int N / 2 ^ k"
proof -
  have "(0::real) < 2 ^ (p - 1)" by simp
  then have "0 < \<bar>x\<bar> * 2 ^ k" using assms(4) by linarith
  then have nz: "x \<noteq> 0" by auto
  define j where "j = int p - 1 - int k"
  have pk: "(2::real) powi (- int k) = 1 / 2 ^ k"
    by (simp add: power_int_minus divide_simps)
  have pj: "(2::real) powi j = 2 ^ (p - 1) / 2 ^ k"
    using assms(1) unfolding j_def
    by (simp add: power_int_diff of_nat_diff flip: power_int_of_nat)
  have pj1: "(2::real) powi (j + 1) = 2 ^ p / 2 ^ k"
  proof -
    have "j + 1 = int p - int k" by (simp add: j_def)
    then show ?thesis by (simp add: power_int_diff)
  qed
  have lo: "2 powi j \<le> \<bar>x\<bar>" using assms(4) by (simp add: pj divide_simps)
  have hi: "\<bar>x\<bar> < 2 powi (j + 1)" using assms(5) by (simp add: pj1 divide_simps)
  have "ilog2 2200 \<bar>x\<bar> = j"
  proof (rule ilog2_eq [OF lo hi])
    have "\<bar>j\<bar> \<le> 2200" using assms(1,2) unfolding j_def by linarith
    then show "nat \<bar>j\<bar> \<le> 2200" by linarith
  qed
  then have e: "max (ilog2 2200 \<bar>x\<bar> - (int p - 1)) emin = - int k"
    using assms(3) by (simp add: j_def)
  have "x / 2 powi (- int k) = x * 2 ^ k" by (simp add: pk)
  then have "round_even (x / 2 powi (- int k)) = N"
    using round_even_near [OF assms(6,7)] by simp
  then show ?thesis
    using nz by (simp add: fl_def e Let_def pk)
qed

lemma ieee_step_21: "fl 53 (- 1074) (2 * fl 53 (- 1074) (1 / (real 21 - 1))) = 7205759403792794 / 2 ^ 56"
proof -
  have a: "fl 53 (- 1074) (1 / (real 21 - 1)) = 7205759403792794 / 2 ^ 57"
    using fl_eval [where p = 53 and k = 57 and emin = "- 1074" and N = 7205759403792794
        and x = "1 / (real 21 - 1)"]
    by simp
  have b: "fl 53 (- 1074) (2 * (7205759403792794 / 2 ^ 57)) = 7205759403792794 / 2 ^ 56"
    using fl_eval [where p = 53 and k = 56 and emin = "- 1074" and N = 7205759403792794
        and x = "2 * (7205759403792794 / 2 ^ 57)"]
    by simp
  show ?thesis by (simp only: a b)
qed

lemma ieee_pos_11:
  "fl 53 (- 1074) (- 1 + fl 53 (- 1074) (real 11 * (7205759403792794 / 2 ^ 56))) =
     7205759403792800 / 2 ^ 56"
proof -
  have a: "fl 53 (- 1074) (real 11 * (7205759403792794 / 2 ^ 56)) = 4953959590107546 / 2 ^ 52"
    using fl_eval [where p = 53 and k = 52 and emin = "- 1074" and N = 4953959590107546
        and x = "real 11 * (7205759403792794 / 2 ^ 56)"]
    by simp
  have b: "fl 53 (- 1074) (- 1 + 4953959590107546 / 2 ^ 52) = 7205759403792800 / 2 ^ 56"
    using fl_eval [where p = 53 and k = 56 and emin = "- 1074" and N = 7205759403792800
        and x = "- 1 + 4953959590107546 / 2 ^ 52"]
    by simp
  show ?thesis by (simp only: a b)
qed

lemma ieee_pos_10:
  "fl 53 (- 1074) (- 1 + fl 53 (- 1074) (real 10 * (7205759403792794 / 2 ^ 56))) = 0"
proof -
  have a: "fl 53 (- 1074) (real 10 * (7205759403792794 / 2 ^ 56)) = 4503599627370496 / 2 ^ 52"
    using fl_eval [where p = 53 and k = 52 and emin = "- 1074" and N = 4503599627370496
        and x = "real 10 * (7205759403792794 / 2 ^ 56)"]
    by simp
  have b: "fl 53 (- 1074) (- 1 + 4503599627370496 / 2 ^ 52) = 0"
    by (simp add: fl_def)
  show ?thesis by (simp only: a b)
qed

lemma ieee_length_11:
  "vlength_fp ieee_arithmetic (Vec3 (7205759403792800 / 2 ^ 56) 0 0) = 7205759403792800 / 2 ^ 56"
proof -
  have z: "fl 53 (- 1074) 0 = 0" by (simp add: fl_def)
  have a: "fl 53 (- 1074) (7205759403792800 / 2 ^ 56 * (7205759403792800 / 2 ^ 56)) =
             5764607523034245 / 2 ^ 59"
    using fl_eval [where p = 53 and k = 59 and emin = "- 1074" and N = 5764607523034245
        and x = "7205759403792800 / 2 ^ 56 * (7205759403792800 / 2 ^ 56)"]
    by simp
  have b: "fl 53 (- 1074) (5764607523034245 / 2 ^ 59) = 5764607523034245 / 2 ^ 59"
    using fl_eval [where p = 53 and k = 59 and emin = "- 1074" and N = 5764607523034245
        and x = "5764607523034245 / 2 ^ 59"]
    by simp
  have lo: "(7205759403792800 - 1 / 2) / 2 ^ 56 < sqrt (5764607523034245 / 2 ^ 59)"
    by (rule real_less_rsqrt) (simp add: power2_eq_square)
  have hi: "sqrt (5764607523034245 / 2 ^ 59) < (7205759403792800 + 1 / 2) / 2 ^ 56"
    by (rule real_less_lsqrt) (simp_all add: power2_eq_square)
  have nn: "0 \<le> sqrt (5764607523034245 / 2 ^ 59)" by simp
  have c: "fl 53 (- 1074) (sqrt (5764607523034245 / 2 ^ 59)) = 7205759403792800 / 2 ^ 56"
  proof (rule fl_eval [where p = 53 and k = 56 and emin = "- 1074" and N = 7205759403792800
        and x = "sqrt (5764607523034245 / 2 ^ 59)", simplified of_int_numeral])
    show "(1::nat) \<le> 53" "56 + 53 \<le> (2000::nat)" "- 1074 \<le> - int 56" by simp_all
    show "2 ^ (53 - 1) \<le> \<bar>sqrt (5764607523034245 / 2 ^ 59)\<bar> * 2 ^ 56"
      using lo nn by (simp only: abs_of_nonneg) (simp add: field_simps)
    show "\<bar>sqrt (5764607523034245 / 2 ^ 59)\<bar> * 2 ^ 56 < 2 ^ 53"
      using hi nn by (simp only: abs_of_nonneg) (simp add: field_simps)
    show "7205759403792800 - 1 / 2 < sqrt (5764607523034245 / 2 ^ 59) * 2 ^ 56"
      using lo by (simp add: field_simps)
    show "sqrt (5764607523034245 / 2 ^ 59) * 2 ^ 56 < 7205759403792800 + 1 / 2"
      using hi by (simp add: field_simps)
  qed
  show ?thesis
    by (simp only: vlength_fp_def ieee_arithmetic_def arithmetic.simps vec3.sel mult_zero_left
        add_0_right z a b c)
qed

lemma ieee_tenth: "fp_tenth ieee_arithmetic = 7205759403792794 / 2 ^ 56"
  using fl_eval [where p = 53 and k = 56 and emin = "- 1074" and N = 7205759403792794
        and x = "1 / 10"]
  by (simp add: ieee_arithmetic_def)

lemma ieee_normalize_11:
  "fp_fround ieee_arithmetic (fp_mul ieee_arithmetic (7205759403792800 / 2 ^ 56)
      (fp_div ieee_arithmetic 1 (7205759403792800 / 2 ^ 56))) = 1"
  "fp_fround ieee_arithmetic (fp_mul ieee_arithmetic 0
      (fp_div ieee_arithmetic 1 (7205759403792800 / 2 ^ 56))) = 0"
proof -
  have a: "fl 53 (- 1074) (1 / (7205759403792800 / 2 ^ 56)) = 5629499534213115 / 2 ^ 49"
    using fl_eval [where p = 53 and k = 49 and emin = "- 1074" and N = 5629499534213115
        and x = "1 / (7205759403792800 / 2 ^ 56)"]
    by simp
  have b: "fl 53 (- 1074) (7205759403792800 / 2 ^ 56 * (5629499534213115 / 2 ^ 49)) = 1"
    using fl_eval [where p = 53 and k = 53 and emin = "- 1074" and N = 9007199254740992
        and x = "7205759403792800 / 2 ^ 56 * (5629499534213115 / 2 ^ 49)"]
    by simp
  have c: "fl 24 (- 149) 1 = 1"
    using fl_eval [where p = 24 and k = 23 and emin = "- 149" and N = 8388608 and x = 1]
    by simp
  have z: "fl p e 0 = 0" for p e by (simp add: fl_def)
  show "fp_fround ieee_arithmetic (fp_mul ieee_arithmetic (7205759403792800 / 2 ^ 56)
      (fp_div ieee_arithmetic 1 (7205759403792800 / 2 ^ 56))) = 1"
    by (simp only: ieee_arithmetic_def arithmetic.simps a b c)
  show "fp_fround ieee_arithmetic (fp_mul ieee_arithmetic 0
      (fp_div ieee_arithmetic 1 (7205759403792800 / 2 ^ 56))) = 0"
    by (simp only: ieee_arithmetic_def arithmetic.simps mult_zero_left z)
qed

lemma ieee_cell_11:
  "cell_pos_fp ieee_arithmetic (fp_mul ieee_arithmetic 2 (fp_div ieee_arithmetic 1 (real 21 - 1)))
     11 10 10 = Vec3 (7205759403792800 / 2 ^ 56) 0 0"
proof -
  have "cell_pos_fp ieee_arithmetic (fp_mul ieee_arithmetic 2 (fp_div ieee_arithmetic 1 (real 21 - 1)))
     11 10 10 =
     Vec3 (fl 53 (- 1074) (- 1 + fl 53 (- 1074) (real 11 * fl 53 (- 1074) (2 * fl 53 (- 1074) (1 / (real 21 - 1))))))
          (fl 53 (- 1074) (- 1 + fl 53 (- 1074) (real 10 * fl 53 (- 1074) (2 * fl 53 (- 1074) (1 / (real 21 - 1))))))
          (fl 53 (- 1074) (- 1 + fl 53 (- 1074) (real 10 * fl 53 (- 1074) (2 * fl 53 (- 1074) (1 / (real 21 - 1))))))"
    by (simp only: cell_pos_fp_def ieee_arithmetic_def arithmetic.simps)
  then show ?thesis
    by (simp only: ieee_step_21 ieee_pos_11 ieee_pos_10)
qed


text \<open>
  Claim C3. With the method \<open>radial\<close>, whatever the arithmetic \<open>F\<close> of the engine (it only has
  to store zero as zero and to read the literal \<open>0.1\<close> as a number that is not negative):
  for every cell of the grid, with \<open>pos\<close> the position and \<open>dist\<close> the length that
  \<open>generate\<close> computes for it, if \<open>dist\<close> is greater than \<open>0.1\<close> and the cell is not inside
  the mesh, the stored velocity is \<open>pos\<close> multiplied by \<open>1 / dist\<close>, component by component,
  each product converted to a 32-bit float; if \<open>dist\<close> is at most \<open>0.1\<close> the stored velocity
  is \<open>(0, 0, 0)\<close> and no division takes place. In exact arithmetic the position is
  \<open>- 1 + x * h\<close> in each coordinate, the length is the Euclidean one, the literal is one
  tenth, and the normalised vector is \<open>pos / |pos|\<close>, of length 1.
\<close>

theorem generate_radial_flow:
  assumes "fp_fround F 0 = 0" and "0 \<le> fp_tenth F"
  shows "(res \<noteq> 1 \<and> x < res \<and> y < res \<and> z < res \<longrightarrow>
           (\<exists>data. generate_data_fp F res ''radial'' m = Some data \<and>
              (let pos = cell_pos_fp F (fp_mul F 2 (fp_div F 1 (real res - 1))) x y z;
                   dist = vlength_fp F pos;
                   stored = stored_velocity data (cell_index res x y z)
               in (dist > fp_tenth F \<and> \<not> inside m pos \<longrightarrow>
                     stored = Vec3 (fp_fround F (fp_mul F (xc pos) (fp_div F 1 dist)))
                                   (fp_fround F (fp_mul F (yc pos) (fp_div F 1 dist)))
                                   (fp_fround F (fp_mul F (zc pos) (fp_div F 1 dist)))) \<and>
                  (dist \<le> fp_tenth F \<longrightarrow> stored = Vec3 0 0 0)))) \<and>
         cell_pos_fp exact_arithmetic h x y z =
           Vec3 (- 1 + real x * h) (- 1 + real y * h) (- 1 + real z * h) \<and>
         vlength_fp exact_arithmetic p = sqrt ((xc p)\<^sup>2 + (yc p)\<^sup>2 + (zc p)\<^sup>2) \<and>
         fp_tenth exact_arithmetic = 1 / 10 \<and>
         (vlength p \<noteq> 0 \<longrightarrow>
            normalize_fp exact_arithmetic p =
              Vec3 (xc p / vlength p) (yc p / vlength p) (zc p / vlength p) \<and>
            vlength (normalize_fp exact_arithmetic p) = 1)"
proof (intro conjI impI)
  assume r: "res \<noteq> 1 \<and> x < res \<and> y < res \<and> z < res"
  define pos where "pos = cell_pos_fp F (fp_mul F 2 (fp_div F 1 (real res - 1))) x y z"
  obtain data where d: "generate_data_fp F res ''radial'' m = Some data"
    and s: "stored_velocity data (cell_index res x y z) =
              fround3 F (cell_velocity_fp F ''radial'' m pos)"
    using generate_fp_cell [of F res x y z "''radial''" m] assms(1) r
    unfolding pos_def by blast
  have far: "fround3 F (cell_velocity_fp F ''radial'' m pos) =
        Vec3 (fp_fround F (fp_mul F (xc pos) (fp_div F 1 (vlength_fp F pos))))
             (fp_fround F (fp_mul F (yc pos) (fp_div F 1 (vlength_fp F pos))))
             (fp_fround F (fp_mul F (zc pos) (fp_div F 1 (vlength_fp F pos))))"
    if "vlength_fp F pos > fp_tenth F" "\<not> inside m pos"
  proof -
    have "vlength_fp F pos \<noteq> 0" using that(1) assms(2) by linarith
    then show ?thesis
      using that
      by (simp add: cell_velocity_fp_def flow_velocity_fp_def normalize_fp_def divideScalar_fp_def
          multiplyScalar_fp_def fround3_def)
  qed
  have near: "fround3 F (cell_velocity_fp F ''radial'' m pos) = Vec3 0 0 0"
    if "vlength_fp F pos \<le> fp_tenth F"
    using that assms(1)
    by (simp add: cell_velocity_fp_def flow_velocity_fp_def fround3_def)
  show "\<exists>data. generate_data_fp F res ''radial'' m = Some data \<and>
          (let pos = cell_pos_fp F (fp_mul F 2 (fp_div F 1 (real res - 1))) x y z;
               dist = vlength_fp F pos;
               stored = stored_velocity data (cell_index res x y z)
           in (dist > fp_tenth F \<and> \<not> inside m pos \<longrightarrow>
                 stored = Vec3 (fp_fround F (fp_mul F (xc pos) (fp_div F 1 dist)))
                               (fp_fround F (fp_mul F (yc pos) (fp_div F 1 dist)))
                               (fp_fround F (fp_mul F (zc pos) (fp_div F 1 dist)))) \<and>
              (dist \<le> fp_tenth F \<longrightarrow> stored = Vec3 0 0 0))"
    unfolding Let_def pos_def [symmetric]
    using d s far near by auto
next
  show "cell_pos_fp exact_arithmetic h x y z =
           Vec3 (- 1 + real x * h) (- 1 + real y * h) (- 1 + real z * h)"
    by (simp add: cell_pos_fp_def exact_arithmetic_def)
next
  show "vlength_fp exact_arithmetic p = sqrt ((xc p)\<^sup>2 + (yc p)\<^sup>2 + (zc p)\<^sup>2)"
    by (simp add: vlength_fp_def exact_arithmetic_def power2_eq_square)
next
  show "fp_tenth exact_arithmetic = 1 / 10"
    by (simp add: exact_arithmetic_def)
next
  assume "vlength p \<noteq> 0"
  then have "vlength p > 0" by (simp add: vlength_def less_le)
  then show "normalize_fp exact_arithmetic p =
              Vec3 (xc p / vlength p) (yc p / vlength p) (zc p / vlength p)"
    by (simp only: normalize_fp_exact vlength_normalize(1))
next
  assume "vlength p \<noteq> 0"
  then have "vlength p > 0" by (simp add: vlength_def less_le)
  then show "vlength (normalize_fp exact_arithmetic p) = 1"
    by (simp only: normalize_fp_exact vlength_normalize(2))
qed

text \<open>
  With IEEE doubles and resolution 21 the cell \<open>(11, 10, 10)\<close> is placed at
  \<open>x = 0.10000000000000009\<close>, just above the double \<open>0.1\<close>, and stores \<open>(1, 0, 0)\<close>.
\<close>

theorem generate_radial_flow_witness:
  "fp_fround ieee_arithmetic 0 = 0 \<and> 0 \<le> fp_tenth ieee_arithmetic \<and>
   cell_pos_fp ieee_arithmetic (fp_mul ieee_arithmetic 2 (fp_div ieee_arithmetic 1 (real 21 - 1)))
     11 10 10 = Vec3 (7205759403792800 / 2 ^ 56) 0 0 \<and>
   vlength_fp ieee_arithmetic (Vec3 (7205759403792800 / 2 ^ 56) 0 0) = 7205759403792800 / 2 ^ 56 \<and>
   fp_tenth ieee_arithmetic = 7205759403792794 / 2 ^ 56 \<and>
   \<not> inside None (Vec3 (7205759403792800 / 2 ^ 56) 0 0) \<and>
   (\<exists>data. generate_data_fp ieee_arithmetic 21 ''radial'' None = Some data \<and>
      stored_velocity data (cell_index 21 11 10 10) = Vec3 1 0 0)"
proof -
  have z: "fp_fround ieee_arithmetic 0 = 0"
    by (simp add: ieee_arithmetic_def fl_def)
  have t: "0 \<le> fp_tenth ieee_arithmetic"
    by (simp only: ieee_tenth) simp
  have gt: "vlength_fp ieee_arithmetic (Vec3 (7205759403792800 / 2 ^ 56) 0 0) > fp_tenth ieee_arithmetic"
    by (simp only: ieee_tenth ieee_length_11) simp
  have i: "\<not> inside None (Vec3 (7205759403792800 / 2 ^ 56) 0 0)"
    by (simp add: inside_def)
  have "\<exists>data. generate_data_fp ieee_arithmetic 21 ''radial'' None = Some data \<and>
      stored_velocity data (cell_index 21 11 10 10) = Vec3 1 0 0"
    using generate_radial_flow [OF z t, where res = 21 and x = 11 and y = 10 and z = 10 and m = None]
      gt i
    by (simp only: Let_def ieee_cell_11 ieee_length_11 vec3.sel ieee_normalize_11) simp
  then show ?thesis
    using z t i ieee_cell_11 ieee_length_11 ieee_tenth by blast
qed

text \<open>
  In exact arithmetic the same cell lies at distance exactly one tenth and stores
  \<open>(0, 0, 0)\<close>: the two arithmetics take different branches there.
\<close>

lemma generate_radial_exact_21:
  "\<exists>data. generate_data_fp exact_arithmetic 21 ''radial'' None = Some data \<and>
      stored_velocity data (cell_index 21 11 10 10) = Vec3 0 0 0"
proof -
  have e: "fp_fround exact_arithmetic 0 = 0" by (simp add: exact_arithmetic_def)
  have p: "cell_pos_fp exact_arithmetic (fp_mul exact_arithmetic 2 (fp_div exact_arithmetic 1 (real 21 - 1)))
     11 10 10 = Vec3 (1 / 10) 0 0"
    by (simp add: cell_pos_fp_def exact_arithmetic_def)
  have l: "vlength_fp exact_arithmetic (Vec3 (1 / 10) 0 0) = 1 / 10"
    by (simp add: vlength_fp_def exact_arithmetic_def real_sqrt_mult flip: power2_eq_square)
  have v: "fround3 exact_arithmetic (cell_velocity_fp exact_arithmetic ''radial'' None (Vec3 (1 / 10) 0 0)) = Vec3 0 0 0"
    by (simp add: cell_velocity_fp_def flow_velocity_fp_def inside_def l fround3_def)
      (simp add: exact_arithmetic_def)
  show ?thesis
    using generate_fp_cell [OF e, of 21 11 10 10 "''radial''" None]
    by (simp only: p v)
qed

subsection \<open>The potential flow\<close>



section \<open>Properties of the particle compute shaders\<close>















lemma sample_field_eq:
  assumes "has_extent U"
  shows "sample_field U pos vel c =
     Some (if in_unit_cube (grid_coords U pos)
           then mix vel (fst (velocityField U (grid_coords U pos))) c else vel, 0)"
proof -
  have "vec3_divide (vsub pos (gridMin U)) (vsub (gridMax U) (gridMin U)) =
      Some (grid_coords U pos)"
    using assms by (simp add: vec3_divide_def vsub_def grid_coords_def has_extent_def)
  then show ?thesis
    by (simp add: sample_field_def in_unit_cube_def Let_def)
qed

lemma spawn_velocity_eq:
  assumes "vlength (initialDirection U) \<noteq> 0"
  shows "(case glsl_normalize (initialDirection U) of None \<Rightarrow> None
          | Some d \<Rightarrow> sample_field U pos (multiplyScalar d (initialSpeed U)) c) =
         sample_field U pos (initial_velocity U) c"
  using assms by (simp add: glsl_normalize_def initial_velocity_def multiplyScalar_def)

lemma in_grid_iff:
  assumes "xc (gridMin U) < xc (gridMax U)" "yc (gridMin U) < yc (gridMax U)"
    "zc (gridMin U) < zc (gridMax U)"
  shows "in_unit_cube (grid_coords U pos) \<longleftrightarrow> containsPoint (Box3 (gridMin U) (gridMax U)) pos"
proof -
  have r: "(0 \<le> (p - lo) / (hi - lo) \<and> (p - lo) / (hi - lo) \<le> 1) \<longleftrightarrow> (lo \<le> p \<and> p \<le> hi)"
    if "lo < hi" for p lo hi :: real
    using that by (simp add: divide_le_eq zero_le_divide_iff)
  show ?thesis
    unfolding in_unit_cube_def grid_coords_def containsPoint.simps vec3.sel
    using r [OF assms(1), of "xc pos"] r [OF assms(2), of "yc pos"] r [OF assms(3), of "zc pos"]
    by blast
qed

text \<open>
  Claim C5. In both versions of the velocity pass (for a grid with extent along every
  axis and a non-zero initial direction), the velocity is blended towards the sampled
  field value, \<open>mix(vel, fieldVel, c)\<close> with \<open>c = 0.3\<close> resp. \<open>0.2\<close>, exactly when the
  position mapped into grid coordinates lies in \<open>[0, 1]^3\<close>, that is when the particle
  is inside the grid; outside the grid the velocity of a particle that is not newly
  spawned is left as it is. A newly spawned particle, one whose age is at most
  \<open>2 * 60 * delta\<close> in the first version and below \<open>1.5 * 60 * delta\<close> (or not positive)
  in the second, first gets the velocity \<open>normalize(initialDirection) * initialSpeed\<close>.
\<close>

theorem velocity_pass_blend:
  fixes U :: "'a velocity_uniforms_scheme"
  assumes "has_extent U" and "vlength (initialDirection U) \<noteq> 0"
  shows
    "particleComputeShaderVelocity U (pos, age) (vel, w) =
       Some (if in_unit_cube (grid_coords U pos)
             then mix (if age \<le> delta U * 60 * 2 then initial_velocity U else vel)
                    (fst (velocityField U (grid_coords U pos))) 0.3
             else (if age \<le> delta U * 60 * 2 then initial_velocity U else vel), 0) \<and>
     particleComputeShaderVelocity2 U (pos, age) (vel, w) =
       Some (if in_unit_cube (grid_coords U pos)
             then mix (if age \<le> 0 \<or> age < delta U * 60 * 1.5 then initial_velocity U else vel)
                    (fst (velocityField U (grid_coords U pos))) 0.2
             else (if age \<le> 0 \<or> age < delta U * 60 * 1.5 then initial_velocity U else vel), 0) \<and>
     (\<not> in_unit_cube (grid_coords U pos) \<and> \<not> age \<le> delta U * 60 * 2 \<longrightarrow>
        particleComputeShaderVelocity U (pos, age) (vel, w) = Some (vel, 0)) \<and>
     (\<not> in_unit_cube (grid_coords U pos) \<and> \<not> (age \<le> 0 \<or> age < delta U * 60 * 1.5) \<longrightarrow>
        particleComputeShaderVelocity2 U (pos, age) (vel, w) = Some (vel, 0)) \<and>
     (xc (gridMin U) < xc (gridMax U) \<and> yc (gridMin U) < yc (gridMax U) \<and>
      zc (gridMin U) < zc (gridMax U) \<longrightarrow>
        (in_unit_cube (grid_coords U pos) \<longleftrightarrow>
           containsPoint (Box3 (gridMin U) (gridMax U)) pos))"
proof -
  have v1: "particleComputeShaderVelocity U (pos, age) (vel, w) =
       sample_field U pos (if age \<le> delta U * 60 * 2 then initial_velocity U else vel) 0.3"
    using spawn_velocity_eq [OF assms(2), of pos "0.3"]
    by (simp add: particleComputeShaderVelocity_def)
  have v2: "particleComputeShaderVelocity2 U (pos, age) (vel, w) =
       sample_field U pos
         (if age \<le> 0 \<or> age < delta U * 60 * 1.5 then initial_velocity U else vel) 0.2"
    using spawn_velocity_eq [OF assms(2), of pos "0.2"]
    by (simp add: particleComputeShaderVelocity2_def)
  show ?thesis
    using in_grid_iff [of U pos]
    by (simp only: v1 v2 sample_field_eq [OF assms(1)]) simp
qed



theorem velocity_pass_blend_witness:
  "particleComputeShaderVelocity test_velocity_uniforms (Vec3 0 0 0, 10) (Vec3 0 0 0, 0) =
     Some (Vec3 (3 / 10) 0 0, 0) \<and>
   particleComputeShaderVelocity2 test_velocity_uniforms (Vec3 0 0 0, 10) (Vec3 0 0 0, 0) =
     Some (Vec3 (1 / 5) 0 0, 0) \<and>
   particleComputeShaderVelocity test_velocity_uniforms (Vec3 2 0 0, 10) (Vec3 0 1 0, 0) =
     Some (Vec3 0 1 0, 0) \<and>
   particleComputeShaderVelocity2 test_velocity_uniforms (Vec3 2 0 0, 10) (Vec3 0 1 0, 0) =
     Some (Vec3 0 1 0, 0) \<and>
   particleComputeShaderVelocity test_velocity_uniforms (Vec3 2 0 0, 0) (Vec3 0 1 0, 0) =
     Some (Vec3 1 0 0, 0) \<and>
   in_unit_cube (grid_coords test_velocity_uniforms (Vec3 0 0 0)) \<and>
   containsPoint (Box3 (gridMin test_velocity_uniforms) (gridMax test_velocity_uniforms)) (Vec3 0 0 0)"
proof -
  have h: "has_extent test_velocity_uniforms"
    by (simp add: has_extent_def test_velocity_uniforms_def)
  have l: "vlength (initialDirection test_velocity_uniforms) \<noteq> 0"
    by (simp add: vlength_def test_velocity_uniforms_def)
  note e = in_unit_cube_def grid_coords_def mix_def vadd_def multiplyScalar_def
    initial_velocity_def vlength_def test_velocity_uniforms_def
  note t = velocity_pass_blend [OF h l]
  have a: "particleComputeShaderVelocity test_velocity_uniforms (Vec3 0 0 0, 10) (Vec3 0 0 0, 0) =
     Some (Vec3 (3 / 10) 0 0, 0)"
    and b: "particleComputeShaderVelocity2 test_velocity_uniforms (Vec3 0 0 0, 10) (Vec3 0 0 0, 0) =
     Some (Vec3 (1 / 5) 0 0, 0)"
    and i: "in_unit_cube (grid_coords test_velocity_uniforms (Vec3 0 0 0))"
    and j: "containsPoint (Box3 (gridMin test_velocity_uniforms) (gridMax test_velocity_uniforms)) (Vec3 0 0 0)"
    using t [of "Vec3 0 0 0" 10 "Vec3 0 0 0" 0] by (simp_all add: e)
  have c: "particleComputeShaderVelocity test_velocity_uniforms (Vec3 2 0 0, 10) (Vec3 0 1 0, 0) =
     Some (Vec3 0 1 0, 0)"
    and d: "particleComputeShaderVelocity2 test_velocity_uniforms (Vec3 2 0 0, 10) (Vec3 0 1 0, 0) =
     Some (Vec3 0 1 0, 0)"
    using t [of "Vec3 2 0 0" 10 "Vec3 0 1 0" 0] by (simp_all add: e)
  have f: "particleComputeShaderVelocity test_velocity_uniforms (Vec3 2 0 0, 0) (Vec3 0 1 0, 0) =
     Some (Vec3 1 0 0, 0)"
    using t [of "Vec3 2 0 0" 0 "Vec3 0 1 0" 0] by (simp add: e)
  from a b c d f i j show ?thesis by (intro conjI)
qed

section \<open>Properties of OBJLoader\<close>

lemma min_affine:
  fixes x y a t :: real
  assumes "0 \<le> a"
  shows "min (x * a + t) (y * a + t) = min x y * a + t"
proof (cases "x \<le> y")
  case True
  then have "x * a + t \<le> y * a + t" using assms by (simp add: mult_right_mono)
  with True show ?thesis by (simp only: min_absorb1)
next
  case False
  then have yx: "y \<le> x" by simp
  then have "y * a + t \<le> x * a + t" using assms by (simp add: mult_right_mono)
  with yx show ?thesis by (simp only: min_absorb2)
qed

lemma max_affine:
  fixes x y a t :: real
  assumes "0 \<le> a"
  shows "max (x * a + t) (y * a + t) = max x y * a + t"
proof (cases "x \<le> y")
  case True
  then have "x * a + t \<le> y * a + t" using assms by (simp add: mult_right_mono)
  with True show ?thesis by (simp only: max_absorb2)
next
  case False
  then have yx: "y \<le> x" by simp
  then have "y * a + t \<le> x * a + t" using assms by (simp add: mult_right_mono)
  with yx show ?thesis by (simp only: max_absorb1)
qed

lemma expandByPoint_affine:
  assumes "0 \<le> a"
  shows "expandByPoint (box_affine a t b) (affine a t p) = box_affine a t (expandByPoint b p)"
  using assms by (cases b) (simp_all add: affine_def min_affine max_affine)

lemma foldl_expand_affine:
  assumes "0 \<le> a"
  shows "foldl expandByPoint (box_affine a t b) (map (affine a t) g) =
         box_affine a t (foldl expandByPoint b g)"
  by (induction g arbitrary: b) (simp_all add: expandByPoint_affine [OF assms])

lemma computeBoundingBox_affine:
  assumes "0 \<le> a"
  shows "computeBoundingBox (map (affine a t) g) = box_affine a t (computeBoundingBox g)"
  using foldl_expand_affine [OF assms, of t EmptyBox g]
  by (simp add: computeBoundingBox_def)

lemma expandByPoint_ok: "box_ok b \<Longrightarrow> box_ok (expandByPoint b p)"
  by (cases b) (simp_all add: min_le_iff_disj le_max_iff_disj)

lemma foldl_expand_ok: "box_ok b \<Longrightarrow> box_ok (foldl expandByPoint b g)"
  by (induction g arbitrary: b) (simp_all add: expandByPoint_ok)

lemma computeBoundingBox_ok: "box_ok (computeBoundingBox g)"
  by (simp add: computeBoundingBox_def foldl_expand_ok)

lemma expandByPoint_not_empty: "expandByPoint b p \<noteq> EmptyBox"
  by (cases b) simp_all

lemma foldl_expand_not_empty: "b \<noteq> EmptyBox \<Longrightarrow> foldl expandByPoint b g \<noteq> EmptyBox"
  by (induction g arbitrary: b) (simp_all add: expandByPoint_not_empty)

lemma computeBoundingBox_empty_iff: "computeBoundingBox g = EmptyBox \<longleftrightarrow> g = []"
  by (cases g) (simp_all add: computeBoundingBox_def foldl_expand_not_empty)

lemma translate_affine: "translate g tx ty tz = map (affine 1 (Vec3 tx ty tz)) g"
  by (simp add: translate_def affine_def)

lemma scale_affine: "scale g s s s = map (affine s (Vec3 0 0 0)) g"
  by (simp add: scale_def affine_def)

lemma maxDim_scale:
  assumes "0 \<le> a"
  shows "maxDim (Vec3 (x * a) (y * a) (z * a)) = maxDim (Vec3 x y z) * a"
  using max_affine [OF assms, where x = x and y = y and t = 0]
    max_affine [OF assms, where x = "max x y" and y = z and t = 0]
  by (simp add: maxDim_def)

lemma maxDim_nonneg:
  assumes "0 \<le> xc v" "0 \<le> yc v" "0 \<le> zc v"
  shows "0 \<le> maxDim v"
  using assms by (simp add: maxDim_def le_max_iff_disj)

lemma normalizeGeometry_empty:
  "normalizeGeometry [] = ([], Some InvalidScaleFactor)"
  by (simp add: normalizeGeometry_def computeBoundingBox_def translate_def maxDim_def)

lemma translated_box:
  assumes "computeBoundingBox g = Box3 lo hi"
  defines "c \<equiv> getCenter (computeBoundingBox g)"
  shows "computeBoundingBox (translate g (- xc c) (- yc c) (- zc c)) =
           Box3 (Vec3 (xc lo - xc c) (yc lo - yc c) (zc lo - zc c))
                (Vec3 (xc hi - xc c) (yc hi - yc c) (zc hi - zc c))"
  using computeBoundingBox_affine [of 1 "Vec3 (- xc c) (- yc c) (- zc c)" g] assms(1)
  by (simp add: translate_affine affine_def)

lemma translated_size:
  assumes "computeBoundingBox g = Box3 lo hi"
  defines "c \<equiv> getCenter (computeBoundingBox g)"
  shows "getSize (computeBoundingBox (translate g (- xc c) (- yc c) (- zc c))) =
           getSize (computeBoundingBox g)"
proof -
  have "computeBoundingBox (translate g (- xc c) (- yc c) (- zc c)) =
           Box3 (Vec3 (xc lo - xc c) (yc lo - yc c) (zc lo - zc c))
                (Vec3 (xc hi - xc c) (yc hi - yc c) (zc hi - zc c))"
    unfolding c_def by (rule translated_box [OF assms(1)])
  then show ?thesis
    by (simp add: assms(1) vsub_def)
qed

lemma normalized_box:
  assumes b: "computeBoundingBox g = Box3 lo hi" and m: "0 < m"
  defines "c \<equiv> getCenter (computeBoundingBox g)"
  defines "g' \<equiv> scale (translate g (- xc c) (- yc c) (- zc c)) (1 / m) (1 / m) (1 / m)"
  shows "computeBoundingBox g' =
           Box3 (Vec3 ((xc lo - xc c) * (1 / m)) ((yc lo - yc c) * (1 / m)) ((zc lo - zc c) * (1 / m)))
                (Vec3 ((xc hi - xc c) * (1 / m)) ((yc hi - yc c) * (1 / m)) ((zc hi - zc c) * (1 / m)))"
proof -
  have a: "0 \<le> 1 / m" using m by simp
  show ?thesis
    unfolding g'_def scale_affine computeBoundingBox_affine [OF a]
    unfolding c_def translated_box [OF b]
    by (simp add: affine_def)
qed

lemma normalizeGeometry_unfold:
  defines "c \<equiv> \<lambda>g. getCenter (computeBoundingBox g)"
  defines "m \<equiv> \<lambda>g. maxDim (getSize (computeBoundingBox g))"
  shows "normalizeGeometry g =
     (if m g = 0 then (translate g (- xc (c g)) (- yc (c g)) (- zc (c g)), Some InvalidScaleFactor)
      else (scale (translate g (- xc (c g)) (- yc (c g)) (- zc (c g)))
              (1 / m g) (1 / m g) (1 / m g), None))"
proof (cases "computeBoundingBox g")
  case EmptyBox
  then have "g = []" by (simp add: computeBoundingBox_empty_iff)
  then show ?thesis
    by (simp add: normalizeGeometry_empty m_def c_def computeBoundingBox_def translate_def
        maxDim_def)
next
  case (Box3 lo hi)
  have "getSize (computeBoundingBox (translate g (- xc (c g)) (- yc (c g)) (- zc (c g)))) =
      getSize (computeBoundingBox g)"
    unfolding c_def by (rule translated_size [OF Box3])
  then show ?thesis
    by (simp add: normalizeGeometry_def Let_def m_def c_def)
qed

lemma maxDim_size_nonneg: "0 \<le> maxDim (getSize (computeBoundingBox g))"
proof (cases "computeBoundingBox g")
  case EmptyBox
  then show ?thesis by (simp add: maxDim_def)
next
  case (Box3 lo hi)
  with computeBoundingBox_ok [of g] show ?thesis
    by (intro maxDim_nonneg) (simp_all add: vsub_def)
qed

text \<open>
  Claim C10. When \<open>normalizeGeometry\<close> returns without throwing, the geometry is the
  original one translated by minus its bounding-box centre and then scaled by
  \<open>1 / maxDim\<close>: its bounding box is centred at the origin and the largest dimension of
  the box is 1. It throws, with the error "Invalid scale factor computed", exactly when
  the bounding box has no extent (\<open>maxDim = 0\<close>, the scale factor is not finite), and
  then the geometry is left translated but not scaled.
\<close>

theorem normalizeGeometry_result:
  "(case normalizeGeometry g of
      (g', None) \<Rightarrow>
        getCenter (computeBoundingBox g') = Vec3 0 0 0 \<and>
        maxDim (getSize (computeBoundingBox g')) = 1 \<and>
        g' = (let c = getCenter (computeBoundingBox g);
                  m = maxDim (getSize (computeBoundingBox g))
              in scale (translate g (- xc c) (- yc c) (- zc c)) (1 / m) (1 / m) (1 / m))
    | (g', Some err) \<Rightarrow>
        err = InvalidScaleFactor \<and>
        g' = (let c = getCenter (computeBoundingBox g)
              in translate g (- xc c) (- yc c) (- zc c))) \<and>
   (snd (normalizeGeometry g) = Some InvalidScaleFactor \<longleftrightarrow>
      maxDim (getSize (computeBoundingBox g)) = 0) \<and>
   (snd (normalizeGeometry g) = None \<longleftrightarrow>
      maxDim (getSize (computeBoundingBox g)) \<noteq> 0)"
proof (cases "maxDim (getSize (computeBoundingBox g)) = 0")
  case True
  then show ?thesis
    by (simp add: normalizeGeometry_unfold Let_def)
next
  case False
  let ?m = "maxDim (getSize (computeBoundingBox g))"
  let ?c = "getCenter (computeBoundingBox g)"
  let ?g' = "scale (translate g (- xc ?c) (- yc ?c) (- zc ?c)) (1 / ?m) (1 / ?m) (1 / ?m)"
  have m: "0 < ?m" using False maxDim_size_nonneg [of g] by simp
  have ne: "computeBoundingBox g \<noteq> EmptyBox"
    using False by (auto simp: maxDim_def)
  then obtain lo hi where b: "computeBoundingBox g = Box3 lo hi"
    by (cases "computeBoundingBox g") simp_all
  have nb: "computeBoundingBox ?g' =
      Box3 (Vec3 ((xc lo - xc ?c) * (1 / ?m)) ((yc lo - yc ?c) * (1 / ?m)) ((zc lo - zc ?c) * (1 / ?m)))
           (Vec3 ((xc hi - xc ?c) * (1 / ?m)) ((yc hi - yc ?c) * (1 / ?m)) ((zc hi - zc ?c) * (1 / ?m)))"
    by (rule normalized_box [OF b m])
  have z: "((l - (l + h) * 0.5) * k + (h - (l + h) * 0.5) * k) * 0.5 = 0" for l h k :: real
  proof -
    have "(l - (l + h) * 0.5) * k + (h - (l + h) * 0.5) * k =
        ((l - (l + h) * 0.5) + (h - (l + h) * 0.5)) * k"
      by (simp only: distrib_right)
    also have "(l - (l + h) * 0.5) + (h - (l + h) * 0.5) = 0" by simp
    finally show ?thesis by simp
  qed
  have d: "(h - e) * k - (l - e) * k = (h - l) * k" for h l e k :: real
    by (simp add: algebra_simps)
  have c: "?c = Vec3 ((xc lo + xc hi) * 0.5) ((yc lo + yc hi) * 0.5) ((zc lo + zc hi) * 0.5)"
    by (simp add: b vadd_def multiplyScalar_def)
  have cen: "getCenter (computeBoundingBox ?g') = Vec3 0 0 0"
    unfolding nb unfolding c
    by (simp only: getCenter.simps vadd_def multiplyScalar_def vec3.sel z)
  have "getSize (computeBoundingBox ?g') =
      Vec3 ((xc hi - xc lo) * (1 / ?m)) ((yc hi - yc lo) * (1 / ?m)) ((zc hi - zc lo) * (1 / ?m))"
    unfolding nb by (simp only: getSize.simps vsub_def vec3.sel d)
  then have "maxDim (getSize (computeBoundingBox ?g')) =
      maxDim (Vec3 (xc hi - xc lo) (yc hi - yc lo) (zc hi - zc lo)) * (1 / ?m)"
  proof -
    assume e: "getSize (computeBoundingBox ?g') =
      Vec3 ((xc hi - xc lo) * (1 / ?m)) ((yc hi - yc lo) * (1 / ?m)) ((zc hi - zc lo) * (1 / ?m))"
    have a: "0 \<le> 1 / ?m" using m by simp
    show ?thesis by (simp only: e maxDim_scale [OF a])
  qed
  also have "Vec3 (xc hi - xc lo) (yc hi - yc lo) (zc hi - zc lo) = getSize (computeBoundingBox g)"
    by (simp add: b vsub_def)
  finally have sz: "maxDim (getSize (computeBoundingBox ?g')) = 1"
    using m by simp
  show ?thesis
    using False cen sz by (simp add: normalizeGeometry_unfold Let_def)
qed

theorem normalizeGeometry_result_witness:
  "normalizeGeometry [Vec3 0 0 0, Vec3 2 4 6] =
     ([Vec3 (- 1 / 6) (- 1 / 3) (- 1 / 2), Vec3 (1 / 6) (1 / 3) (1 / 2)], None) \<and>
   getCenter (computeBoundingBox (fst (normalizeGeometry [Vec3 0 0 0, Vec3 2 4 6]))) = Vec3 0 0 0 \<and>
   maxDim (getSize (computeBoundingBox (fst (normalizeGeometry [Vec3 0 0 0, Vec3 2 4 6])))) = 1 \<and>
   normalizeGeometry [Vec3 1 1 1, Vec3 1 1 1] =
     ([Vec3 0 0 0, Vec3 0 0 0], Some InvalidScaleFactor)"
proof -
  let ?G = "[Vec3 0 0 0, Vec3 2 4 6]" and ?P = "[Vec3 1 1 1, Vec3 1 1 1]"
  have m1: "maxDim (getSize (computeBoundingBox ?G)) = 6"
    and c1: "getCenter (computeBoundingBox ?G) = Vec3 1 2 3"
    and m2: "maxDim (getSize (computeBoundingBox ?P)) = 0"
    and c2: "getCenter (computeBoundingBox ?P) = Vec3 1 1 1"
    by (simp_all add: computeBoundingBox_def vsub_def vadd_def multiplyScalar_def maxDim_def)
  obtain g1 e1 where n1: "normalizeGeometry ?G = (g1, e1)"
    by (cases "normalizeGeometry ?G")
  obtain g2 e2 where n2: "normalizeGeometry ?P = (g2, e2)"
    by (cases "normalizeGeometry ?P")
  have e1: "e1 = None"
    using normalizeGeometry_result [of ?G] by (simp add: n1 m1)
  have e2: "e2 = Some InvalidScaleFactor"
    using normalizeGeometry_result [of ?P] by (simp add: n2 m2)
  have t1: "getCenter (computeBoundingBox g1) = Vec3 0 0 0 \<and>
      maxDim (getSize (computeBoundingBox g1)) = 1 \<and>
      g1 = (let c = getCenter (computeBoundingBox ?G);
                m = maxDim (getSize (computeBoundingBox ?G))
            in scale (translate ?G (- xc c) (- yc c) (- zc c)) (1 / m) (1 / m) (1 / m))"
    using normalizeGeometry_result [of ?G] unfolding n1 e1
    by (simp only: prod.case option.case) blast
  then have p1: "getCenter (computeBoundingBox g1) = Vec3 0 0 0"
    and q1: "maxDim (getSize (computeBoundingBox g1)) = 1"
    by blast+
  have g1: "g1 = [Vec3 (- 1 / 6) (- 1 / 3) (- 1 / 2), Vec3 (1 / 6) (1 / 3) (1 / 2)]"
    using t1 by (simp add: m1 c1 translate_def scale_def)
  have g2: "g2 = [Vec3 0 0 0, Vec3 0 0 0]"
    using normalizeGeometry_result [of ?P]
    by (simp add: n2 e2 m2 c2 translate_def)
  show ?thesis
  proof (intro conjI)
    show "normalizeGeometry ?G =
        ([Vec3 (- 1 / 6) (- 1 / 3) (- 1 / 2), Vec3 (1 / 6) (1 / 3) (1 / 2)], None)"
      by (simp only: n1 g1 e1)
    show "getCenter (computeBoundingBox (fst (normalizeGeometry ?G))) = Vec3 0 0 0"
      by (simp only: n1 fst_conv p1)
    show "maxDim (getSize (computeBoundingBox (fst (normalizeGeometry ?G)))) = 1"
      by (simp only: n1 fst_conv q1)
    show "normalizeGeometry ?P = ([Vec3 0 0 0, Vec3 0 0 0], Some InvalidScaleFactor)"
      by (simp only: n2 g2 e2)
  qed
qed

lemma visit_keeps_geometry:
  "fst (foldl visit (Some g, a, b) xs) = Some g"
  by (induction xs arbitrary: a b) simp_all

lemma visit_finds_first:
  "fst (foldl visit (None, a, b) xs) = map_option obj_geometry (find isMesh xs)"
  by (induction xs arbitrary: a b) (simp_all add: visit_keeps_geometry)

lemma find_None_iff_no_mesh: "find isMesh xs = None \<longleftrightarrow> (\<forall>c \<in> set xs. \<not> isMesh c)"
  by (auto simp: find_None_iff)

lemma normalizeGeometry_lib_error:
  "snd (normalizeGeometry_lib lib g) =
     (if js_isFinite (scale_factor lib g) then None else Some InvalidScaleFactor)"
  by (simp add: normalizeGeometry_lib_def scale_factor_def Let_def)

lemma processObject_cases:
  "processObject lib L object lid =
     (case find isMesh (traverse object) of
        None \<Rightarrow> Inl NoMeshFound
      | Some c \<Rightarrow>
          if js_isFinite (scale_factor lib (obj_geometry c))
          then Inr (setMesh L \<lparr>lm_id = lid,
                 lm_geometry = fst (normalizeGeometry_lib lib (obj_geometry c)),
                 lm_wireframe = False\<rparr>)
          else Inl InvalidScaleFactor)"
proof (cases "find isMesh (traverse object)")
  case None
  then show ?thesis by (simp add: processObject_def visit_finds_first)
next
  case (Some c)
  obtain g' e where n: "normalizeGeometry_lib lib (obj_geometry c) = (g', e)"
    by (cases "normalizeGeometry_lib lib (obj_geometry c)")
  have e: "e = (if js_isFinite (scale_factor lib (obj_geometry c)) then None
                else Some InvalidScaleFactor)"
    using normalizeGeometry_lib_error [of lib "obj_geometry c"] n by simp
  show ?thesis
    using Some n e by (simp add: processObject_def visit_finds_first)
qed

lemma loadFromFile_cases:
  "loadFromFile lib parse L file =
     (case file of
        ReadFailed \<Rightarrow> (L\<lparr>loadId := loadId L + 1\<rparr>, Rejected FileReaderError)
      | ReadText text \<Rightarrow>
          (case parse text of
             None \<Rightarrow> (L\<lparr>loadId := loadId L + 1\<rparr>, Rejected ParseError)
           | Some object \<Rightarrow>
               (case find isMesh (traverse object) of
                  None \<Rightarrow> (L\<lparr>loadId := loadId L + 1\<rparr>, Rejected NoMeshFound)
                | Some c \<Rightarrow>
                    if js_isFinite (scale_factor lib (obj_geometry c))
                    then (let L' = setMesh (L\<lparr>loadId := loadId L + 1\<rparr>)
                                \<lparr>lm_id = loadId L + 1,
                                 lm_geometry = fst (normalizeGeometry_lib lib (obj_geometry c)),
                                 lm_wireframe = False\<rparr>
                          in (L', Resolved (currentMesh L')))
                    else (L\<lparr>loadId := loadId L + 1\<rparr>, Rejected InvalidScaleFactor))))"
  by (simp add: loadFromFile_def Let_def processObject_cases
      split: file_read.splits option.splits)

lemma js_reciprocal_two: "js_reciprocal (Num 2) = Num (1 / 2)"
proof -
  have "fl 53 (- 1074) (1 / 2) = 4503599627370496 / 2 ^ 53"
    using fl_eval [where p = 53 and k = 53 and emin = "- 1074" and N = 4503599627370496
        and x = "1 / 2"]
    by simp
  then have "fl 53 (- 1074) (1 / 2) = 1 / 2" by simp
  then show ?thesis by simp
qed

lemma scale_factor_nan:
  "scale_factor vertex_lib [JSVec NaN NaN NaN, JSVec NaN NaN NaN, JSVec NaN NaN NaN] = NaN"
  by (simp add: scale_factor_def vertex_lib_def js_boundingBox_def js_expandByPoint_def
      js_getCenter_def js_getSize_def js_isEmpty_def)

lemma scale_factor_degenerate:
  "scale_factor vertex_lib
     [JSVec (Num 1) (Num 1) (Num 1), JSVec (Num 1) (Num 1) (Num 1), JSVec (Num 1) (Num 1) (Num 1)] =
   PosInfinity"
  by (simp add: scale_factor_def vertex_lib_def js_boundingBox_def js_expandByPoint_def
      js_getCenter_def js_getSize_def js_isEmpty_def)

lemma normalize_proper:
  "scale_factor vertex_lib [JSVec (Num 0) (Num 0) (Num 0), JSVec (Num 2) (Num 1) (Num 1)] =
     Num (1 / 2)"
  "normalizeGeometry_lib vertex_lib [JSVec (Num 0) (Num 0) (Num 0), JSVec (Num 2) (Num 1) (Num 1)] =
     ([JSVec (Num (- 1 / 2)) (Num (- 1 / 4)) (Num (- 1 / 4)),
       JSVec (Num (1 / 2)) (Num (1 / 4)) (Num (1 / 4))], None)"
proof -
  have c: "js_getCenter (js_boundingBox [JSVec (Num 0) (Num 0) (Num 0), JSVec (Num 2) (Num 1) (Num 1)]) =
      JSVec (Num 1) (Num (1 / 2)) (Num (1 / 2))"
    by (simp add: js_boundingBox_def js_expandByPoint_def js_getCenter_def js_isEmpty_def)
  have s: "js_getSize (js_boundingBox
       [JSVec (Num (- 1)) (Num (- (1 / 2))) (Num (- (1 / 2))), JSVec (Num 1) (Num (1 / 2)) (Num (1 / 2))]) =
      JSVec (Num 2) (Num 1) (Num 1)"
    by (simp add: js_boundingBox_def js_expandByPoint_def js_getSize_def js_isEmpty_def)
  show "scale_factor vertex_lib [JSVec (Num 0) (Num 0) (Num 0), JSVec (Num 2) (Num 1) (Num 1)] =
     Num (1 / 2)"
    by (simp add: scale_factor_def vertex_lib_def c s js_reciprocal_two del: js_reciprocal.simps)
  show "normalizeGeometry_lib vertex_lib [JSVec (Num 0) (Num 0) (Num 0), JSVec (Num 2) (Num 1) (Num 1)] =
     ([JSVec (Num (- 1 / 2)) (Num (- 1 / 4)) (Num (- 1 / 4)),
       JSVec (Num (1 / 2)) (Num (1 / 4)) (Num (1 / 4))], None)"
    by (simp add: normalizeGeometry_lib_def vertex_lib_def c s js_reciprocal_two
        del: js_reciprocal.simps)
qed

text \<open>
  Claim C6, amended. Whatever the methods of three.js compute, the promise of
  \<open>loadFromFile\<close> is rejected exactly when the \<open>FileReader\<close> fails, the text does not
  parse, the parsed hierarchy holds no mesh (the error "No mesh found in OBJ file"), or
  the scale factor \<open>1.0 / maxDim\<close> that \<open>normalizeGeometry\<close> computes for the first mesh is
  not finite (the error "Invalid scale factor computed"): \<open>maxDim\<close> is NaN, zero, or so
  small that its reciprocal overflows. In every such case the loader's current mesh,
  its scene and the set of disposed meshes are as before.
\<close>

theorem loadFromFile_rejection:
  "((\<exists>err. snd (loadFromFile lib parse L file) = Rejected err) \<longleftrightarrow>
      file = ReadFailed \<or>
      (\<exists>text. file = ReadText text \<and>
         (parse text = None \<or>
          (\<exists>object. parse text = Some object \<and>
             ((\<forall>c \<in> set (traverse object). \<not> isMesh c) \<or>
              (\<exists>c. find isMesh (traverse object) = Some c \<and>
                   \<not> js_isFinite (scale_factor lib (obj_geometry c)))))))) \<and>
   (snd (loadFromFile lib parse L file) = Rejected NoMeshFound \<longleftrightarrow>
      (\<exists>text object. file = ReadText text \<and> parse text = Some object \<and>
         (\<forall>c \<in> set (traverse object). \<not> isMesh c))) \<and>
   (snd (loadFromFile lib parse L file) = Rejected InvalidScaleFactor \<longleftrightarrow>
      (\<exists>text object c. file = ReadText text \<and> parse text = Some object \<and>
         find isMesh (traverse object) = Some c \<and>
         \<not> js_isFinite (scale_factor lib (obj_geometry c)))) \<and>
   message NoMeshFound = Some ''No mesh found in OBJ file'' \<and>
   message InvalidScaleFactor = Some ''Invalid scale factor computed'' \<and>
   (\<forall>err. snd (loadFromFile lib parse L file) = Rejected err \<longrightarrow>
      currentMesh (fst (loadFromFile lib parse L file)) = currentMesh L \<and>
      scene (fst (loadFromFile lib parse L file)) = scene L \<and>
      disposed (fst (loadFromFile lib parse L file)) = disposed L) \<and>
   (\<not> js_isFinite (js_reciprocal m) \<longleftrightarrow>
      m = NaN \<or> m = Num 0 \<or>
      (\<exists>r. m = Num r \<and> r \<noteq> 0 \<and> 2 ^ 1024 \<le> \<bar>fl 53 (- 1074) (1 / r)\<bar>))"
proof -
  have last: "\<not> js_isFinite (js_reciprocal m) \<longleftrightarrow>
      m = NaN \<or> m = Num 0 \<or>
      (\<exists>r. m = Num r \<and> r \<noteq> 0 \<and> 2 ^ 1024 \<le> \<bar>fl 53 (- 1074) (1 / r)\<bar>)"
    by (cases m) auto
  have main: "((\<exists>err. snd (loadFromFile lib parse L file) = Rejected err) \<longleftrightarrow>
      file = ReadFailed \<or>
      (\<exists>text. file = ReadText text \<and>
         (parse text = None \<or>
          (\<exists>object. parse text = Some object \<and>
             ((\<forall>c \<in> set (traverse object). \<not> isMesh c) \<or>
              (\<exists>c. find isMesh (traverse object) = Some c \<and>
                   \<not> js_isFinite (scale_factor lib (obj_geometry c)))))))) \<and>
   (snd (loadFromFile lib parse L file) = Rejected NoMeshFound \<longleftrightarrow>
      (\<exists>text object. file = ReadText text \<and> parse text = Some object \<and>
         (\<forall>c \<in> set (traverse object). \<not> isMesh c))) \<and>
   (snd (loadFromFile lib parse L file) = Rejected InvalidScaleFactor \<longleftrightarrow>
      (\<exists>text object c. file = ReadText text \<and> parse text = Some object \<and>
         find isMesh (traverse object) = Some c \<and>
         \<not> js_isFinite (scale_factor lib (obj_geometry c)))) \<and>
   message NoMeshFound = Some ''No mesh found in OBJ file'' \<and>
   message InvalidScaleFactor = Some ''Invalid scale factor computed'' \<and>
   (\<forall>err. snd (loadFromFile lib parse L file) = Rejected err \<longrightarrow>
      currentMesh (fst (loadFromFile lib parse L file)) = currentMesh L \<and>
      scene (fst (loadFromFile lib parse L file)) = scene L \<and>
      disposed (fst (loadFromFile lib parse L file)) = disposed L)"
  proof (cases "file")
    case ReadFailed
    then show ?thesis by (simp add: loadFromFile_cases)
  next
    case (ReadText body)
    show ?thesis
    proof (cases "parse body")
      case None
      with ReadText show ?thesis by (simp add: loadFromFile_cases)
    next
      case (Some object)
      show ?thesis
      proof (cases "find isMesh (traverse object)")
        case None
        then have "\<forall>c \<in> set (traverse object). \<not> isMesh c"
          by (simp add: find_None_iff_no_mesh)
        with ReadText Some None show ?thesis by (simp add: loadFromFile_cases)
      next
        case found: (Some c)
        then have "\<not> (\<forall>c \<in> set (traverse object). \<not> isMesh c)"
          using find_None_iff_no_mesh [of "traverse object"] by simp
        with ReadText Some found show ?thesis
          by (simp add: loadFromFile_cases Let_def)
      qed
    qed
  qed
  from main last show ?thesis by (elim conjE) (intro conjI; assumption)
qed

text \<open>
  With the vertex-list library: a mesh whose coordinates are all NaN is rejected for its
  scale factor, a hierarchy without a mesh, a parse error and a read error are rejected
  too, each leaving the loader's mesh and scene alone; a proper mesh is normalised and
  becomes the current mesh.
\<close>

theorem loadFromFile_rejection_witness:
  "snd (loadFromFile vertex_lib (const_parser nan_object) test_loader (ReadText ''f 1 2 3'')) =
     Rejected InvalidScaleFactor \<and>
   currentMesh (fst (loadFromFile vertex_lib (const_parser nan_object) test_loader
      (ReadText ''f 1 2 3''))) = currentMesh test_loader \<and>
   scene (fst (loadFromFile vertex_lib (const_parser nan_object) test_loader
      (ReadText ''f 1 2 3''))) = scene test_loader \<and>
   disposed (fst (loadFromFile vertex_lib (const_parser nan_object) test_loader
      (ReadText ''f 1 2 3''))) = disposed test_loader \<and>
   snd (loadFromFile vertex_lib (const_parser empty_object) test_loader (ReadText ''f 1 2 3'')) =
     Rejected NoMeshFound \<and>
   (\<exists>err. snd (loadFromFile vertex_lib failing_parser test_loader (ReadText ''f 1 2 3'')) =
      Rejected err) \<and>
   (\<exists>err. snd (loadFromFile vertex_lib (const_parser proper_object) test_loader ReadFailed) =
      Rejected err) \<and>
   snd (loadFromFile vertex_lib (const_parser proper_object) test_loader (ReadText ''f 1 2 3'')) =
     Resolved (Some \<lparr>lm_id = 1,
       lm_geometry = [JSVec (Num (- 1 / 2)) (Num (- 1 / 4)) (Num (- 1 / 4)),
                      JSVec (Num (1 / 2)) (Num (1 / 4)) (Num (1 / 4))],
       lm_wireframe = True\<rparr>)"
proof -
  let ?r = "loadFromFile vertex_lib (const_parser nan_object) test_loader (ReadText ''f 1 2 3'')"
  have r: "snd ?r = Rejected InvalidScaleFactor"
    using loadFromFile_rejection
      [of vertex_lib "const_parser nan_object" test_loader "ReadText ''f 1 2 3''"]
    by (simp add: const_parser_def nan_object_def scale_factor_nan)
  have same: "currentMesh (fst ?r) = currentMesh test_loader \<and> scene (fst ?r) = scene test_loader \<and>
      disposed (fst ?r) = disposed test_loader"
    using loadFromFile_rejection
      [of vertex_lib "const_parser nan_object" test_loader "ReadText ''f 1 2 3''"] r
    by blast
  have nm: "snd (loadFromFile vertex_lib (const_parser empty_object) test_loader
      (ReadText ''f 1 2 3'')) = Rejected NoMeshFound"
    using loadFromFile_rejection
      [of vertex_lib "const_parser empty_object" test_loader "ReadText ''f 1 2 3''"]
    by (simp add: const_parser_def empty_object_def)
  have pf: "\<exists>err. snd (loadFromFile vertex_lib failing_parser test_loader (ReadText ''f 1 2 3'')) =
      Rejected err"
    using loadFromFile_rejection [of vertex_lib failing_parser test_loader "ReadText ''f 1 2 3''"]
    by (simp add: failing_parser_def)
  have rf: "\<exists>err. snd (loadFromFile vertex_lib (const_parser proper_object) test_loader ReadFailed) =
      Rejected err"
    using loadFromFile_rejection [of vertex_lib "const_parser proper_object" test_loader ReadFailed]
    by simp
  have ok: "snd (loadFromFile vertex_lib (const_parser proper_object) test_loader
      (ReadText ''f 1 2 3'')) =
     Resolved (Some \<lparr>lm_id = 1,
       lm_geometry = [JSVec (Num (- 1 / 2)) (Num (- 1 / 4)) (Num (- 1 / 4)),
                      JSVec (Num (1 / 2)) (Num (1 / 4)) (Num (1 / 4))],
       lm_wireframe = True\<rparr>)"
    by (simp add: loadFromFile_cases const_parser_def proper_object_def normalize_proper Let_def
        setMesh_def test_loader_def)
  from r same nm pf rf ok show ?thesis by blast
qed

text \<open>
  Claim C6 as stated fails: a file that is read and parsed, and whose hierarchy holds a
  mesh, is still rejected when all vertices of that mesh lie in one point.
\<close>

theorem loadFromFile_rejection_counterexample:
  "snd (loadFromFile vertex_lib (const_parser degenerate_object) test_loader (ReadText ''f 1 2 3'')) =
     Rejected InvalidScaleFactor \<and>
   ReadText ''f 1 2 3'' \<noteq> ReadFailed \<and>
   const_parser degenerate_object ''f 1 2 3'' = Some degenerate_object \<and>
   traverse degenerate_object = [degenerate_object] \<and>
   isMesh degenerate_object \<and>
   scale_factor vertex_lib (obj_geometry degenerate_object) = PosInfinity \<and>
   message InvalidScaleFactor \<noteq> message NoMeshFound"
  by (simp add: loadFromFile_cases const_parser_def degenerate_object_def scale_factor_degenerate)

section \<open>Properties of ParticleSystem\<close>

lemma update_frame:
  "COUNT (update vf S t dt) = COUNT S \<and> WIDTH (update vf S t dt) = WIDTH S \<and>
   sizeX (update vf S t dt) = sizeX S \<and> sizeY (update vf S t dt) = sizeY S"
  by (simp add: update_def Let_def split: option.splits prod.splits)

lemma updateParams_frame:
  "COUNT (updateParams S p) = COUNT S \<and> WIDTH (updateParams S p) = WIDTH S \<and>
   sizeX (updateParams S p) = sizeX S \<and> sizeY (updateParams S p) = sizeY S"
  by (simp add: updateParams_def Let_def)

lemma updateParams_plane_frame:
  "COUNT (updateParams_plane S p) = COUNT S \<and> WIDTH (updateParams_plane S p) = WIDTH S \<and>
   sizeX (updateParams_plane S p) = sizeX S \<and> sizeY (updateParams_plane S p) = sizeY S"
  by (simp add: updateParams_plane_def Let_def split: option.splits)

lemma apply_op_frame:
  "COUNT (apply_op S op) = COUNT S \<and> WIDTH (apply_op S op) = WIDTH S \<and>
   sizeX (apply_op S op) = sizeX S \<and> sizeY (apply_op S op) = sizeY S"
  by (cases op) (simp_all add: update_frame updateParams_frame)

lemma apply_op_plane_frame:
  "COUNT (apply_op_plane S op) = COUNT S \<and> WIDTH (apply_op_plane S op) = WIDTH S \<and>
   sizeX (apply_op_plane S op) = sizeX S \<and> sizeY (apply_op_plane S op) = sizeY S"
  by (cases op) (simp_all add: update_frame updateParams_plane_frame)

lemma run_frame:
  "COUNT (foldl apply_op S ops) = COUNT S \<and> WIDTH (foldl apply_op S ops) = WIDTH S \<and>
   sizeX (foldl apply_op S ops) = sizeX S \<and> sizeY (foldl apply_op S ops) = sizeY S"
  by (induction ops arbitrary: S) (simp_all add: apply_op_frame)

lemma run_plane_frame:
  "COUNT (foldl apply_op_plane S ops) = COUNT S \<and>
   WIDTH (foldl apply_op_plane S ops) = WIDTH S \<and>
   sizeX (foldl apply_op_plane S ops) = sizeX S \<and>
   sizeY (foldl apply_op_plane S ops) = sizeY S"
  by (induction ops arbitrary: S) (simp_all add: apply_op_plane_frame)

text \<open>
  Neither \<open>update\<close> nor \<open>updateParams\<close> touches the grid bounds or the initial
  direction: the velocity pass always runs with the values \<open>initGPU\<close> sets, a grid from
  \<open>(-1, -1, -1)\<close> to \<open>(1, 1, 1)\<close> and the direction \<open>(1, 0, 0)\<close>.
\<close>

lemma grid_uniforms_fixed:
  "velocityUniforms (foldl apply_op S ops) ''gridMin'' = velocityUniforms S ''gridMin'' \<and>
   velocityUniforms (foldl apply_op S ops) ''gridMax'' = velocityUniforms S ''gridMax'' \<and>
   velocityUniforms (foldl apply_op S ops) ''initialDirection'' =
     velocityUniforms S ''initialDirection''"
proof (induction ops arbitrary: S)
  case Nil
  then show ?case by simp
next
  case (Cons op ops)
  have "velocityUniforms (apply_op S op) ''gridMin'' = velocityUniforms S ''gridMin'' \<and>
   velocityUniforms (apply_op S op) ''gridMax'' = velocityUniforms S ''gridMax'' \<and>
   velocityUniforms (apply_op S op) ''initialDirection'' = velocityUniforms S ''initialDirection''"
    by (cases op)
      (simp_all add: update_def updateParams_def Let_def split: option.splits prod.splits)
  then show ?case by (simp add: Cons.IH)
qed

text \<open>
  Claim C7. The particle count is \<open>WIDTH * WIDTH\<close> at construction (65536, resp. 16384
  in the version with the plane emitter) and no run of \<open>update\<close> and \<open>updateParams\<close>
  calls changes it, nor \<open>WIDTH\<close>, nor the size of the compute textures. The key
  \<open>emissionRate\<close> of \<open>updateParams\<close> has no effect at all: the state after the call does
  not depend on its value, and a call with only that key changes nothing.
\<close>

theorem particle_count_fixed:
  "COUNT ParticleSystem_new = WIDTH ParticleSystem_new * WIDTH ParticleSystem_new \<and>
   COUNT (foldl apply_op ParticleSystem_new ops) = 65536 \<and>
   WIDTH (foldl apply_op ParticleSystem_new ops) = 256 \<and>
   sizeX (foldl apply_op ParticleSystem_new ops) = 256 \<and>
   sizeY (foldl apply_op ParticleSystem_new ops) = 256 \<and>
   COUNT ParticleSystem_new_plane =
     WIDTH ParticleSystem_new_plane * WIDTH ParticleSystem_new_plane \<and>
   COUNT (foldl apply_op_plane ParticleSystem_new_plane ops) = 16384 \<and>
   WIDTH (foldl apply_op_plane ParticleSystem_new_plane ops) = 128 \<and>
   sizeX (foldl apply_op_plane ParticleSystem_new_plane ops) = 128 \<and>
   sizeY (foldl apply_op_plane ParticleSystem_new_plane ops) = 128 \<and>
   updateParams S (p\<lparr>p_emissionRate := r\<rparr>) = updateParams S p \<and>
   updateParams S (no_params\<lparr>p_emissionRate := r\<rparr>) = S \<and>
   updateParams_plane S' (p\<lparr>p_emissionRate := r\<rparr>) = updateParams_plane S' p \<and>
   updateParams_plane S' (no_params\<lparr>p_emissionRate := r\<rparr>) = S'"
proof -
  have a: "updateParams S (p\<lparr>p_emissionRate := r\<rparr>) = updateParams S p"
    by (simp add: updateParams_def Let_def split: option.splits)
  have b: "updateParams S (no_params\<lparr>p_emissionRate := r\<rparr>) = S"
    by (simp add: updateParams_def Let_def no_params_def set_if_truthy_def set_if_defined_def
        split: option.splits)
  have c: "updateParams_plane S' (p\<lparr>p_emissionRate := r\<rparr>) = updateParams_plane S' p"
    by (simp add: updateParams_plane_def)
  have d: "updateParams_plane S' (no_params\<lparr>p_emissionRate := r\<rparr>) = S'"
    by (simp add: updateParams_plane_def Let_def no_params_def set_if_truthy_def)
  show ?thesis
    using run_frame [of ParticleSystem_new ops] run_plane_frame [of ParticleSystem_new_plane ops]
      a b c d
    by (simp add: ParticleSystem_new_def ParticleSystem_new_plane_def)
qed

theorem particle_count_fixed_witness:
  "COUNT (foldl apply_op ParticleSystem_new
     [UpdateParams (no_params\<lparr>p_emissionRate := Some (Num 5000), p_lifespan := Some (Num 100)\<rparr>),
      Update \<lparr>vf_resolution = 2, vf_data = Some [], vf_texture = Some ([], 2)\<rparr> (Num 1) (Num 0.016)]) =
     65536 \<and>
   updateParams ParticleSystem_new (no_params\<lparr>p_emissionRate := Some (Num 5000)\<rparr>) =
     ParticleSystem_new \<and>
   updateParams_plane ParticleSystem_new_plane (no_params\<lparr>p_emissionRate := Some (Num 5000)\<rparr>) =
     ParticleSystem_new_plane"
  using particle_count_fixed [where ops =
      "[UpdateParams (no_params\<lparr>p_emissionRate := Some (Num 5000), p_lifespan := Some (Num 100)\<rparr>),
        Update \<lparr>vf_resolution = 2, vf_data = Some [], vf_texture = Some ([], 2)\<rparr> (Num 1) (Num 0.016)]"
      and S = ParticleSystem_new and p = no_params and r = "Some (Num 5000)"
      and S' = ParticleSystem_new_plane]
  by blast

text \<open>
  Claim C8. While the velocity field has no texture, \<open>update\<close> returns the particle
  system as it was: no compute run, no uniform of either pass modified, the display
  material's textures as before. (With a texture, a compute run does take place.)
\<close>

theorem update_without_texture:
  "(vf_texture vf = None \<longrightarrow>
      update vf S t deltaTime = S \<and>
      computeRuns (update vf S t deltaTime) = computeRuns S \<and>
      positionUniforms (update vf S t deltaTime) = positionUniforms S \<and>
      velocityUniforms (update vf S t deltaTime) = velocityUniforms S \<and>
      materialUniforms (update vf S t deltaTime) = materialUniforms S) \<and>
   (vf_texture vf \<noteq> None \<longrightarrow>
      computeRuns (update vf S t deltaTime) = computeRuns S + 1)"
  by (auto simp: update_def Let_def split: option.splits prod.splits)

theorem update_without_texture_witness:
  "update VelocityField_new ParticleSystem_new (Num 1) (Num 0.016) = ParticleSystem_new \<and>
   update VelocityField_new ParticleSystem_new_plane (Num 1) (Num 0.016) =
     ParticleSystem_new_plane \<and>
   computeRuns (update \<lparr>vf_resolution = 2, vf_data = Some [], vf_texture = Some ([], 2)\<rparr>
     ParticleSystem_new (Num 1) (Num 0.016)) = 1"
proof -
  have n: "vf_texture VelocityField_new = None" by (simp add: VelocityField_new_def)
  have s: "vf_texture \<lparr>vf_resolution = 2, vf_data = Some [], vf_texture = Some ([], 2)\<rparr> \<noteq> None"
    by simp
  have c: "computeRuns ParticleSystem_new = 0" by (simp add: ParticleSystem_new_def)
  show ?thesis
    using update_without_texture [of VelocityField_new ParticleSystem_new "Num 1" "Num 0.016"]
      update_without_texture [of VelocityField_new ParticleSystem_new_plane "Num 1" "Num 0.016"]
      update_without_texture [of "\<lparr>vf_resolution = 2, vf_data = Some [], vf_texture = Some ([], 2)\<rparr>"
        ParticleSystem_new "Num 1" "Num 0.016"] n s c
    by simp
qed

lemma updateParams_positionUniforms:
  "positionUniforms (updateParams S p) =
     set_if_defined (set_if_defined (set_if_truthy (set_if_truthy
       (case p_emitterPos p of None \<Rightarrow> positionUniforms S
        | Some v \<Rightarrow> (positionUniforms S)(''emitterPos'' \<mapsto> UVec v))
       ''maxAge'' (p_lifespan p)) ''speedMultiplier'' (p_speedMultiplier p))
       ''emissionShape'' (p_emissionShape p)) ''emissionRadius'' (p_emissionRadius p)"
  by (simp add: updateParams_def Let_def split: option.splits)

lemma updateParams_plane_positionUniforms:
  "positionUniforms (updateParams_plane S p) =
     set_if_truthy (set_if_truthy (set_if_truthy (set_if_truthy
       (case p_emitterPos p of None \<Rightarrow> positionUniforms S
        | Some v \<Rightarrow> (positionUniforms S)(''emitterPos'' \<mapsto> UVec v))
       ''maxAge'' (p_lifespan p)) ''speedMultiplier'' (p_speedMultiplier p))
       ''emitterWidth'' (p_emitterWidth p)) ''emitterHeight'' (p_emitterHeight p)"
  by (simp add: updateParams_plane_def Let_def split: option.splits)

lemma updateParams_others:
  "velocityUniforms (updateParams S p) = velocityUniforms S \<and>
   materialUniforms (updateParams S p) = materialUniforms S \<and>
   velocityUniforms (updateParams_plane S' p) = velocityUniforms S' \<and>
   materialUniforms (updateParams_plane S' p) = materialUniforms S'"
  by (simp add: updateParams_def updateParams_plane_def Let_def split: option.splits)

text \<open>
  Claim C9. \<open>updateParams\<close> tests \<open>emitterPos\<close>, \<open>lifespan\<close> and \<open>speedMultiplier\<close> for
  truthiness: a falsy value (0 or NaN) leaves \<open>maxAge\<close> resp. \<open>speedMultiplier\<close> as it
  was, a truthy one is stored. \<open>emissionShape\<close> and \<open>emissionRadius\<close> are tested against
  \<open>undefined\<close>: any value given, 0 included, is stored. A uniform whose key is absent
  from \<open>params\<close> is unchanged, as are all uniforms \<open>updateParams\<close> never names. The version
  with the plane emitter has the same truthiness tests (also for \<open>emitterWidth\<close> and
  \<open>emitterHeight\<close>) and no emission shape or radius.
\<close>

theorem updateParams_truthiness:
  "\<not> truthy (Num 0) \<and>
   (p_lifespan p = Some n \<and> \<not> truthy n \<longrightarrow>
      positionUniforms (updateParams S p) ''maxAge'' = positionUniforms S ''maxAge'') \<and>
   (p_speedMultiplier p = Some n \<and> \<not> truthy n \<longrightarrow>
      positionUniforms (updateParams S p) ''speedMultiplier'' =
        positionUniforms S ''speedMultiplier'') \<and>
   (p_lifespan p = Some n \<and> truthy n \<longrightarrow>
      positionUniforms (updateParams S p) ''maxAge'' = Some (UNum n)) \<and>
   (p_speedMultiplier p = Some n \<and> truthy n \<longrightarrow>
      positionUniforms (updateParams S p) ''speedMultiplier'' = Some (UNum n)) \<and>
   (p_emitterPos p = Some v \<longrightarrow>
      positionUniforms (updateParams S p) ''emitterPos'' = Some (UVec v)) \<and>
   (p_emissionShape p = Some n \<longrightarrow>
      positionUniforms (updateParams S p) ''emissionShape'' = Some (UNum n)) \<and>
   (p_emissionRadius p = Some n \<longrightarrow>
      positionUniforms (updateParams S p) ''emissionRadius'' = Some (UNum n)) \<and>
   (p_emitterPos p = None \<longrightarrow>
      positionUniforms (updateParams S p) ''emitterPos'' = positionUniforms S ''emitterPos'') \<and>
   (p_lifespan p = None \<longrightarrow>
      positionUniforms (updateParams S p) ''maxAge'' = positionUniforms S ''maxAge'') \<and>
   (p_speedMultiplier p = None \<longrightarrow>
      positionUniforms (updateParams S p) ''speedMultiplier'' =
        positionUniforms S ''speedMultiplier'') \<and>
   (p_emissionShape p = None \<longrightarrow>
      positionUniforms (updateParams S p) ''emissionShape'' =
        positionUniforms S ''emissionShape'') \<and>
   (p_emissionRadius p = None \<longrightarrow>
      positionUniforms (updateParams S p) ''emissionRadius'' =
        positionUniforms S ''emissionRadius'') \<and>
   (k \<noteq> ''emitterPos'' \<and> k \<noteq> ''maxAge'' \<and> k \<noteq> ''speedMultiplier'' \<and>
    k \<noteq> ''emissionShape'' \<and> k \<noteq> ''emissionRadius'' \<longrightarrow>
      positionUniforms (updateParams S p) k = positionUniforms S k) \<and>
   velocityUniforms (updateParams S p) = velocityUniforms S \<and>
   materialUniforms (updateParams S p) = materialUniforms S \<and>
   (p_lifespan p = Some n \<and> \<not> truthy n \<longrightarrow>
      positionUniforms (updateParams_plane S' p) ''maxAge'' = positionUniforms S' ''maxAge'') \<and>
   (p_speedMultiplier p = Some n \<and> \<not> truthy n \<longrightarrow>
      positionUniforms (updateParams_plane S' p) ''speedMultiplier'' =
        positionUniforms S' ''speedMultiplier'') \<and>
   (p_emitterPos p = None \<longrightarrow>
      positionUniforms (updateParams_plane S' p) ''emitterPos'' =
        positionUniforms S' ''emitterPos'') \<and>
   (p_lifespan p = None \<longrightarrow>
      positionUniforms (updateParams_plane S' p) ''maxAge'' = positionUniforms S' ''maxAge'') \<and>
   (p_speedMultiplier p = None \<longrightarrow>
      positionUniforms (updateParams_plane S' p) ''speedMultiplier'' =
        positionUniforms S' ''speedMultiplier'') \<and>
   (p_emitterWidth p = None \<longrightarrow>
      positionUniforms (updateParams_plane S' p) ''emitterWidth'' =
        positionUniforms S' ''emitterWidth'') \<and>
   (p_emitterHeight p = None \<longrightarrow>
      positionUniforms (updateParams_plane S' p) ''emitterHeight'' =
        positionUniforms S' ''emitterHeight'') \<and>
   (k \<noteq> ''emitterPos'' \<and> k \<noteq> ''maxAge'' \<and> k \<noteq> ''speedMultiplier'' \<and>
    k \<noteq> ''emitterWidth'' \<and> k \<noteq> ''emitterHeight'' \<longrightarrow>
      positionUniforms (updateParams_plane S' p) k = positionUniforms S' k) \<and>
   velocityUniforms (updateParams_plane S' p) = velocityUniforms S' \<and>
   materialUniforms (updateParams_plane S' p) = materialUniforms S'"
proof -
  note e = updateParams_positionUniforms set_if_truthy_def set_if_defined_def
  note e' = updateParams_plane_positionUniforms set_if_truthy_def
  have a1: "p_lifespan p = Some n \<and> \<not> truthy n \<longrightarrow>
      positionUniforms (updateParams S p) ''maxAge'' = positionUniforms S ''maxAge''"
    by (simp add: e split: option.splits)
  have a2: "p_speedMultiplier p = Some n \<and> \<not> truthy n \<longrightarrow>
      positionUniforms (updateParams S p) ''speedMultiplier'' =
        positionUniforms S ''speedMultiplier''"
    by (simp add: e split: option.splits)
  have a3: "p_lifespan p = Some n \<and> truthy n \<longrightarrow>
      positionUniforms (updateParams S p) ''maxAge'' = Some (UNum n)"
    by (simp add: e split: option.splits)
  have a4: "p_speedMultiplier p = Some n \<and> truthy n \<longrightarrow>
      positionUniforms (updateParams S p) ''speedMultiplier'' = Some (UNum n)"
    by (simp add: e split: option.splits)
  have a5: "p_emitterPos p = Some v \<longrightarrow>
      positionUniforms (updateParams S p) ''emitterPos'' = Some (UVec v)"
    by (simp add: e split: option.splits)
  have a6: "p_emissionShape p = Some n \<longrightarrow>
      positionUniforms (updateParams S p) ''emissionShape'' = Some (UNum n)"
    by (simp add: e split: option.splits)
  have a7: "p_emissionRadius p = Some n \<longrightarrow>
      positionUniforms (updateParams S p) ''emissionRadius'' = Some (UNum n)"
    by (simp add: e split: option.splits)
  have b1: "p_emitterPos p = None \<longrightarrow>
      positionUniforms (updateParams S p) ''emitterPos'' = positionUniforms S ''emitterPos''"
    by (simp add: e split: option.splits)
  have b2: "p_lifespan p = None \<longrightarrow>
      positionUniforms (updateParams S p) ''maxAge'' = positionUniforms S ''maxAge''"
    by (simp add: e split: option.splits)
  have b3: "p_speedMultiplier p = None \<longrightarrow>
      positionUniforms (updateParams S p) ''speedMultiplier'' =
        positionUniforms S ''speedMultiplier''"
    by (simp add: e split: option.splits)
  have b4: "p_emissionShape p = None \<longrightarrow>
      positionUniforms (updateParams S p) ''emissionShape'' =
        positionUniforms S ''emissionShape''"
    by (simp add: e split: option.splits)
  have b5: "p_emissionRadius p = None \<longrightarrow>
      positionUniforms (updateParams S p) ''emissionRadius'' =
        positionUniforms S ''emissionRadius''"
    by (simp add: e split: option.splits)
  have b6: "k \<noteq> ''emitterPos'' \<and> k \<noteq> ''maxAge'' \<and> k \<noteq> ''speedMultiplier'' \<and>
    k \<noteq> ''emissionShape'' \<and> k \<noteq> ''emissionRadius'' \<longrightarrow>
      positionUniforms (updateParams S p) k = positionUniforms S k"
    by (simp add: e split: option.splits)
  have c1: "p_lifespan p = Some n \<and> \<not> truthy n \<longrightarrow>
      positionUniforms (updateParams_plane S' p) ''maxAge'' = positionUniforms S' ''maxAge''"
    by (simp add: e' split: option.splits)
  have c2: "p_speedMultiplier p = Some n \<and> \<not> truthy n \<longrightarrow>
      positionUniforms (updateParams_plane S' p) ''speedMultiplier'' =
        positionUniforms S' ''speedMultiplier''"
    by (simp add: e' split: option.splits)
  have d1: "p_emitterPos p = None \<longrightarrow>
      positionUniforms (updateParams_plane S' p) ''emitterPos'' =
        positionUniforms S' ''emitterPos''"
    by (simp add: e' split: option.splits)
  have d2: "p_lifespan p = None \<longrightarrow>
      positionUniforms (updateParams_plane S' p) ''maxAge'' = positionUniforms S' ''maxAge''"
    by (simp add: e' split: option.splits)
  have d3: "p_speedMultiplier p = None \<longrightarrow>
      positionUniforms (updateParams_plane S' p) ''speedMultiplier'' =
        positionUniforms S' ''speedMultiplier''"
    by (simp add: e' split: option.splits)
  have d4: "p_emitterWidth p = None \<longrightarrow>
      positionUniforms (updateParams_plane S' p) ''emitterWidth'' =
        positionUniforms S' ''emitterWidth''"
    by (simp add: e' split: option.splits)
  have d5: "p_emitterHeight p = None \<longrightarrow>
      positionUniforms (updateParams_plane S' p) ''emitterHeight'' =
        positionUniforms S' ''emitterHeight''"
    by (simp add: e' split: option.splits)
  have d6: "k \<noteq> ''emitterPos'' \<and> k \<noteq> ''maxAge'' \<and> k \<noteq> ''speedMultiplier'' \<and>
    k \<noteq> ''emitterWidth'' \<and> k \<noteq> ''emitterHeight'' \<longrightarrow>
      positionUniforms (updateParams_plane S' p) k = positionUniforms S' k"
    by (simp add: e' split: option.splits)
  have z: "\<not> truthy (Num 0)" by simp
  show ?thesis
    by (intro conjI z a1 a2 a3 a4 a5 a6 a7 b1 b2 b3 b4 b5 b6 c1 c2 d1 d2 d3 d4 d5 d6
        updateParams_others [of S p S', THEN conjunct1]
        updateParams_others [of S p S', THEN conjunct2, THEN conjunct1]
        updateParams_others [of S p S', THEN conjunct2, THEN conjunct2, THEN conjunct1]
        updateParams_others [of S p S', THEN conjunct2, THEN conjunct2, THEN conjunct2])
qed

theorem updateParams_truthiness_witness:
  "positionUniforms (updateParams ParticleSystem_new zero_params) ''maxAge'' =
     Some (UNum (Num 300)) \<and>
   positionUniforms (updateParams ParticleSystem_new zero_params) ''speedMultiplier'' =
     Some (UNum (Num 1)) \<and>
   positionUniforms (updateParams ParticleSystem_new zero_params) ''emissionShape'' =
     Some (UNum (Num 0)) \<and>
   positionUniforms (updateParams ParticleSystem_new zero_params) ''emissionRadius'' =
     Some (UNum (Num 0)) \<and>
   positionUniforms (updateParams ParticleSystem_new zero_params) ''emitterPos'' =
     Some (UVec (Vec3 (- 1) 0 0)) \<and>
   positionUniforms (updateParams_plane ParticleSystem_new_plane zero_params) ''maxAge'' =
     Some (UNum (Num 500)) \<and>
   positionUniforms (updateParams ParticleSystem_new some_params) ''maxAge'' =
     Some (UNum (Num 100)) \<and>
   positionUniforms (updateParams ParticleSystem_new some_params) ''speedMultiplier'' =
     Some (UNum (Num 1)) \<and>
   positionUniforms (updateParams ParticleSystem_new some_params) ''emitterPos'' =
     Some (UVec (Vec3 0 1 2)) \<and>
   positionUniforms (updateParams ParticleSystem_new some_params) ''emissionRadius'' =
     Some (UNum (Num 0.2)) \<and>
   positionUniforms (updateParams ParticleSystem_new some_params) ''boundsMax'' =
     Some (UVec (Vec3 2 2 2))"
proof -
  have p: "p_lifespan zero_params = Some (Num 0)" "p_speedMultiplier zero_params = Some (Num 0)"
    "p_emissionShape zero_params = Some (Num 0)" "p_emissionRadius zero_params = Some (Num 0)"
    "p_emitterPos zero_params = None"
    by (simp_all add: zero_params_def no_params_def)
  have q: "p_lifespan some_params = Some (Num 100)" "p_speedMultiplier some_params = Some NaN"
    "p_emissionShape some_params = None" "p_emissionRadius some_params = None"
    "p_emitterPos some_params = Some (Vec3 0 1 2)"
    by (simp_all add: some_params_def no_params_def)
  have u: "positionUniforms ParticleSystem_new ''maxAge'' = Some (UNum (Num 300))"
    "positionUniforms ParticleSystem_new ''speedMultiplier'' = Some (UNum (Num 1))"
    "positionUniforms ParticleSystem_new ''emitterPos'' = Some (UVec (Vec3 (- 1) 0 0))"
    "positionUniforms ParticleSystem_new ''emissionRadius'' = Some (UNum (Num 0.2))"
    "positionUniforms ParticleSystem_new ''boundsMax'' = Some (UVec (Vec3 2 2 2))"
    by (simp_all add: ParticleSystem_new_def)
  have u': "positionUniforms ParticleSystem_new_plane ''maxAge'' = Some (UNum (Num 500))"
    by (simp add: ParticleSystem_new_plane_def)
  have a: "positionUniforms (updateParams ParticleSystem_new zero_params) ''maxAge'' =
     Some (UNum (Num 300)) \<and>
   positionUniforms (updateParams ParticleSystem_new zero_params) ''speedMultiplier'' =
     Some (UNum (Num 1)) \<and>
   positionUniforms (updateParams ParticleSystem_new zero_params) ''emissionShape'' =
     Some (UNum (Num 0)) \<and>
   positionUniforms (updateParams ParticleSystem_new zero_params) ''emissionRadius'' =
     Some (UNum (Num 0)) \<and>
   positionUniforms (updateParams ParticleSystem_new zero_params) ''emitterPos'' =
     Some (UVec (Vec3 (- 1) 0 0)) \<and>
   positionUniforms (updateParams_plane ParticleSystem_new_plane zero_params) ''maxAge'' =
     Some (UNum (Num 500))"
    using updateParams_truthiness [where p = zero_params and n = "Num 0"
        and S = ParticleSystem_new and S' = ParticleSystem_new_plane]
    by (simp add: p u u')
  have b: "positionUniforms (updateParams ParticleSystem_new some_params) ''maxAge'' =
     Some (UNum (Num 100)) \<and>
   positionUniforms (updateParams ParticleSystem_new some_params) ''emitterPos'' =
     Some (UVec (Vec3 0 1 2)) \<and>
   positionUniforms (updateParams ParticleSystem_new some_params) ''emissionRadius'' =
     Some (UNum (Num 0.2)) \<and>
   positionUniforms (updateParams ParticleSystem_new some_params) ''boundsMax'' =
     Some (UVec (Vec3 2 2 2))"
    using updateParams_truthiness [where p = some_params and n = "Num 100"
        and S = ParticleSystem_new and v = "Vec3 0 1 2" and k = "''boundsMax''"]
    by (simp add: q u)
  have c: "positionUniforms (updateParams ParticleSystem_new some_params) ''speedMultiplier'' =
     Some (UNum (Num 1))"
    using updateParams_truthiness [where p = some_params and n = NaN and S = ParticleSystem_new]
    by (simp add: q u)
  from a b c show ?thesis by blast
qed

end
